theory Spec2Isabelle
  imports Complex_Main "HOL-Library.Monad_Syntax"
begin

section \<open>Numbers\<close>

text \<open>
  The program computes in C++ \<^verbatim>\<open>float\<close>. The embedding idealises a finite float as a
  \<^typ>\<open>real\<close>: no rounding, no overflow, and the literals \<^verbatim>\<open>0.2f\<close>, \<^verbatim>\<open>0.01f\<close>, \<^verbatim>\<open>M_PI\<close> are
  the exact numbers they denote. What is kept of IEEE arithmetic is the result of a
  division by zero: the quotient is not a finite number. Such a value is \<open>None\<close> of an
  option type, it propagates through arithmetic (the bind of the option monad), and a
  comparison with it is false, as a comparison with NaN is. The places where the source
  compares or clamps a value that may be NaN are written out as a case distinction.

  What the reals do not have is rounding and the sign of zero. An equation proved here
  holds of the program up to the rounding of its operations, and a threshold is met at
  the real constant where the program meets it at the nearest binary32 number. Two
  places where this changes what the program does are marked at \<open>std_atan2\<close> and
  at \<open>update_linear_velocity\<close>; no theorem below states the angle an aircraft turns
  to after takeoff or a bound on the length of a velocity.
\<close>

subsection \<open>Game parameters (namespace params)\<close>

definition ship_LINEAR_SPEED :: real where "ship_LINEAR_SPEED = 0.5"
definition ship_ANGULAR_SPEED :: real where "ship_ANGULAR_SPEED = 0.5"
definition ship_SIZE :: real where "ship_SIZE = 0.2"
definition ship_REFILL_TIME :: real where "ship_REFILL_TIME = 10"

definition aircraft_TARGET_RADIUS :: real where "aircraft_TARGET_RADIUS = 1.5"
definition aircraft_LINEAR_ACCELERATION :: real where "aircraft_LINEAR_ACCELERATION = 0.3"
definition aircraft_LINEAR_SPEED :: real where "aircraft_LINEAR_SPEED = 2.5"
definition aircraft_ANGULAR_SPEED :: real where "aircraft_ANGULAR_SPEED = 2.5"
definition aircraft_TAKEOFF_TIME :: real where "aircraft_TAKEOFF_TIME = 3"
definition aircraft_LIVE_TIME :: real where "aircraft_LIVE_TIME = 50"
definition aircraft_LANDING_SPEED :: real where
  "aircraft_LANDING_SPEED = aircraft_LINEAR_SPEED / 1.5"

subsection \<open>Library functions\<close>

text \<open>
  \<^verbatim>\<open>std::atan2(y, x)\<close> of the C library on finite arguments: the angle of the point
  \<open>(x, y)\<close> in \<open>(-\<pi>, \<pi>]\<close>, and 0 at the origin. On the negative x-axis the library
  returns \<open>\<pi>\<close> for \<open>y = +0.0\<close> and \<open>-\<pi>\<close> for \<open>y = -0.0\<close>; the reals have one zero and the
  model returns \<open>\<pi>\<close>. So where the destination is exactly opposite to the heading, the
  program may turn the other way than \<open>calculate_rotation\<close> below; no theorem states the
  angle an aircraft turns to after takeoff.
\<close>

definition std_atan2 :: "real \<Rightarrow> real \<Rightarrow> real" where
  "std_atan2 y x =
     (if 0 < x then arctan (y / x)
      else if x < 0 \<and> 0 \<le> y then arctan (y / x) + pi
      else if x < 0 \<and> y < 0 then arctan (y / x) - pi
      else if 0 < y then pi / 2
      else if y < 0 then - (pi / 2)
      else 0)"

section \<open>Basic Vector2 class\<close>

text \<open>
  The members \<^verbatim>\<open>x\<close> and \<^verbatim>\<open>y\<close> are the selectors \<open>vx\<close> and \<open>vy\<close>, after the names of the
  constructor's parameters.
\<close>

datatype Vector2 = Vector2 (vx: real) (vy: real)

text \<open>
  The default constructor is \<open>0\<close>; \<^verbatim>\<open>operator +\<close>, binary and unary \<^verbatim>\<open>operator -\<close> are
  the operations of the group.
\<close>

instantiation Vector2 :: ab_group_add
begin

definition zero_Vector2 :: Vector2 where
  "zero_Vector2 = Vector2 0 0"

definition plus_Vector2 :: "Vector2 \<Rightarrow> Vector2 \<Rightarrow> Vector2" where
  "plus_Vector2 left right = Vector2 (vx left + vx right) (vy left + vy right)"

definition minus_Vector2 :: "Vector2 \<Rightarrow> Vector2 \<Rightarrow> Vector2" where
  "minus_Vector2 left right = Vector2 (vx left - vx right) (vy left - vy right)"

definition uminus_Vector2 :: "Vector2 \<Rightarrow> Vector2" where
  "uminus_Vector2 left = Vector2 (- vx left) (- vy left)"

instance
proof
  fix a b c :: Vector2
  show "a + b + c = a + (b + c)" by (simp add: plus_Vector2_def)
  show "a + b = b + a" by (simp add: plus_Vector2_def)
  show "0 + a = a" by (simp add: plus_Vector2_def zero_Vector2_def)
  show "- a + a = 0" by (simp add: plus_Vector2_def uminus_Vector2_def zero_Vector2_def)
  show "a - b = a + - b" by (simp add: plus_Vector2_def uminus_Vector2_def minus_Vector2_def)
qed

end

text \<open>\<^verbatim>\<open>operator * (float, Vector2)\<close>.\<close>

definition smul :: "real \<Rightarrow> Vector2 \<Rightarrow> Vector2" where
  "smul left right = Vector2 (left * vx right) (left * vy right)"

definition get_length :: "Vector2 \<Rightarrow> real" where
  "get_length v = sqrt (vx v * vx v + vy v * vy v)"

text \<open>Both components are \<open>0 / 0\<close> when the length is zero: the result is NaN.\<close>

definition get_normalized :: "Vector2 \<Rightarrow> Vector2 option" where
  "get_normalized v =
     (let length = get_length v
      in if length = 0 then None else Some (Vector2 (vx v / length) (vy v / length)))"

definition get_rotated :: "Vector2 \<Rightarrow> real \<Rightarrow> Vector2" where
  "get_rotated v a =
     Vector2 (cos a * vx v - sin a * vy v) (sin a * vx v + cos a * vy v)"

definition dot :: "Vector2 \<Rightarrow> Vector2 \<Rightarrow> real option" where
  "dot lhv rhv =
     do {
       normalized_lhv \<leftarrow> get_normalized lhv;
       normalized_rhv \<leftarrow> get_normalized rhv;
       Some (vx normalized_lhv * vx normalized_rhv + vy normalized_lhv * vy normalized_rhv)
     }"

definition angle_rad :: "Vector2 \<Rightarrow> Vector2 \<Rightarrow> real option" where
  "angle_rad lhv rhv =
     do {
       normalized_lhv \<leftarrow> get_normalized lhv;
       normalized_rhv \<leftarrow> get_normalized rhv;
       Some (- std_atan2
                (vx normalized_lhv * vy normalized_rhv - vy normalized_lhv * vx normalized_rhv)
                (vx normalized_lhv * vx normalized_rhv + vy normalized_lhv * vy normalized_rhv))
     }"

definition calculate_landing_radius :: real where
  "calculate_landing_radius =
     (let ROTATION_TIME = pi / aircraft_ANGULAR_SPEED;
          SLOWDOWN_TIME =
            (aircraft_LINEAR_SPEED - aircraft_LANDING_SPEED) / aircraft_LINEAR_ACCELERATION;
          ROTATION_TRAVEL = ROTATION_TIME * aircraft_LINEAR_SPEED;
          SLOWDOWN_TRAVEL = (aircraft_LINEAR_SPEED - aircraft_LANDING_SPEED) * SLOWDOWN_TIME / 2
      in ROTATION_TRAVEL + SLOWDOWN_TRAVEL)"

definition LANDING_RADIUS :: real where
  "LANDING_RADIUS = calculate_landing_radius"

section \<open>The scene and the keys of the framework\<close>

text \<open>
  Modelled from the spec: the framework's headers (\<^verbatim>\<open>framework/scene.hpp\<close>,
  \<^verbatim>\<open>framework/game.hpp\<close>) are not among the source files. The scene is a sink: it hands
  out mesh handles, numbered in the order of their creation, and records the calls it
  receives; the game never reads it back. A value of type \<open>Mesh\<close> is a pointer to a
  mesh. The keys are the four directions that \<^verbatim>\<open>Ship::update\<close> reads.
\<close>

datatype Mesh = nullptr | Mesh nat

datatype scene_call =
    createShipMesh Mesh
  | createAircraftMesh Mesh
  | destroyMesh Mesh
  | placeMesh Mesh real real real
  | placeGoalMarker real real

record scene =
  created :: nat
  calls :: "scene_call list"

datatype Key = KEY_FORWARD | KEY_BACKWARD | KEY_LEFT | KEY_RIGHT

definition scene_createAircraftMesh :: "scene \<Rightarrow> Mesh \<times> scene" where
  "scene_createAircraftMesh sc =
     (Mesh (created sc),
      sc\<lparr>created := Suc (created sc),
         calls := calls sc @ [createAircraftMesh (Mesh (created sc))]\<rparr>)"

definition scene_createShipMesh :: "scene \<Rightarrow> Mesh \<times> scene" where
  "scene_createShipMesh sc =
     (Mesh (created sc),
      sc\<lparr>created := Suc (created sc),
         calls := calls sc @ [createShipMesh (Mesh (created sc))]\<rparr>)"

definition scene_call :: "scene_call \<Rightarrow> scene \<Rightarrow> scene" where
  "scene_call c sc = sc\<lparr>calls := calls sc @ [c]\<rparr>"

section \<open>The state of the game\<close>

record Aircraft =
  m_mesh :: Mesh
  m_position :: Vector2
  m_angle :: real
  m_linear_velocity :: Vector2
  m_live_time :: real

record Ship =
  mesh :: Mesh
  position :: Vector2
  angle :: real
  input :: "Key \<Rightarrow> bool"
  m_aircrafts :: "Aircraft list"
  m_aircraft_refill_timers :: "real list"
  m_live_time :: real

text \<open>The globals of namespace \<^verbatim>\<open>game\<close>.\<close>

record game =
  ship :: Ship
  s_goal_position :: Vector2

definition get_position :: "Ship \<Rightarrow> Vector2" where
  "get_position s = position s"

definition get_angle :: "Ship \<Rightarrow> real" where
  "get_angle s = angle s"

section \<open>Aircraft\<close>

text \<open>
  A member function takes the aircraft it is called on, and the globals it reads
  (\<^verbatim>\<open>game::ship\<close>, \<^verbatim>\<open>game::s_goal_position\<close>) as the record \<open>g\<close>.
\<close>

definition Aircraft_new :: "Vector2 \<Rightarrow> real \<Rightarrow> scene \<Rightarrow> Aircraft \<times> scene" where
  "Aircraft_new pos ang sc =
     (let (m, sc') = scene_createAircraftMesh sc
      in (\<lparr>m_mesh = m, m_position = pos, m_angle = ang, m_linear_velocity = 0,
           Aircraft.m_live_time = 0\<rparr>, sc'))"

text \<open>
  The solve divides by \<^verbatim>\<open>vector_1.x\<close> and by
  \<^verbatim>\<open>(vector_1.y * vector_2.x / vector_1.x) - vector_2.y\<close>, with no test of either. When
  \<^verbatim>\<open>vector_1.x\<close> is zero, the numerator and the denominator of \<open>k\<close> are both infinite or
  NaN and \<open>k\<close> is NaN; when only the denominator is zero, \<open>k\<close> is infinite or NaN. In both
  cases no component of the result is a finite number.
\<close>

definition get_intersection ::
  "Vector2 \<Rightarrow> Vector2 \<Rightarrow> Vector2 \<Rightarrow> Vector2 \<Rightarrow> Vector2 option" where
  "get_intersection position_1 vector_1 position_2 vector_2 =
     (if vx vector_1 = 0 then None
      else if vy vector_1 * vx vector_2 / vx vector_1 - vy vector_2 = 0 then None
      else
        let k = (vy position_2 - vy position_1
                   - (vy vector_1 / vx vector_1) * (vx position_2 - vx position_1))
                / (vy vector_1 * vx vector_2 / vx vector_1 - vy vector_2)
        in Some (Vector2 (vx position_2 + vx vector_2 * k) (vy position_2 + vy vector_2 * k)))"

definition calculate_target_destination :: "game \<Rightarrow> Aircraft \<Rightarrow> Vector2 option" where
  "calculate_target_destination g a =
     (let target_vector = s_goal_position g - m_position a
      in do {
           n \<leftarrow> get_normalized (get_rotated target_vector (pi / 2));
           let goal_position = s_goal_position g + smul aircraft_TARGET_RADIUS n;
           Some (goal_position - m_position a)
         })"

text \<open>
  In the call made here the second divisor is \<open>- 1 / cos t\<close> for the ship's angle \<open>t\<close>, so
  the intersection is not finite only when the x-component \<open>cos t\<close> of the ship's forward
  vector is zero, and then it is NaN (\<open>landing_intersection\<close> below). A NaN intersection
  has a NaN distance, \<^verbatim>\<open>length_to_intersection > 0.01f\<close> is then false and the third step
  is taken. This case belongs to the reals: an angle with the cosine zero is an odd
  multiple of \<open>\<pi> / 2\<close>, which no binary32 number is, and no theorem below is about it.
\<close>

definition calculate_landing_destination :: "game \<Rightarrow> Aircraft \<Rightarrow> Vector2 option" where
  "calculate_landing_destination g a =
     (let ship_forward = get_rotated (Vector2 1 0) (get_angle (ship g));
          ship_forward_normal = get_rotated ship_forward (pi / 2)
      in case get_intersection (get_position (ship g)) ship_forward
                (m_position a) ship_forward_normal of
           None \<Rightarrow> Some (get_position (ship g) - m_position a)
         | Some intersection \<Rightarrow>
             let length_to_intersection = get_length (intersection - m_position a)
             in if length_to_intersection > 0.01 then
                  if length_to_intersection > LANDING_RADIUS then
                    do {
                      n \<leftarrow> get_normalized (m_position a - intersection);
                      Some (intersection + smul LANDING_RADIUS n - m_position a)
                    }
                  else
                    do {
                      n \<leftarrow> get_normalized (get_position (ship g) - intersection);
                      Some (intersection + smul LANDING_RADIUS n - m_position a)
                    }
                else Some (get_position (ship g) - m_position a))"

definition calculate_destination :: "game \<Rightarrow> Aircraft \<Rightarrow> Vector2 option" where
  "calculate_destination g a =
     (if Aircraft.m_live_time a \<ge> aircraft_LIVE_TIME
      then calculate_landing_destination g a
      else calculate_target_destination g a)"

text \<open>
  The destination here is finite. A NaN projection (the velocity or the destination is
  the zero vector) is not greater than \<^verbatim>\<open>LANDING_SPEED\<close>, and the destination is returned
  as it is.
\<close>

definition correct_closing_to_target :: "Aircraft \<Rightarrow> Vector2 \<Rightarrow> Vector2" where
  "correct_closing_to_target a destination =
     (if get_length destination \<le> LANDING_RADIUS then
        case dot (m_linear_velocity a) destination of
          None \<Rightarrow> destination
        | Some c \<Rightarrow>
            let projection = get_length (smul c (m_linear_velocity a))
            in if projection > aircraft_LANDING_SPEED then - destination else destination
      else destination)"

text \<open>
  A NaN destination stays NaN: its length is not \<open>\<le> LANDING_RADIUS\<close>, so
  \<^verbatim>\<open>correct_closing_to_target\<close> returns it, and the arithmetic after it propagates it.
\<close>

definition calculate_corrected_destination :: "game \<Rightarrow> Aircraft \<Rightarrow> Vector2 option" where
  "calculate_corrected_destination g a =
     do {
       destination \<leftarrow> calculate_destination g a;
       let destination = correct_closing_to_target a destination;
       n \<leftarrow> get_normalized destination;
       Some (smul aircraft_LINEAR_SPEED n - m_linear_velocity a)
     }"

text \<open>
  With a NaN target angle, \<^verbatim>\<open>target_angle > 0\<close> is false and
  \<^verbatim>\<open>std::max(rotation, target_angle)\<close> returns its first argument.
\<close>

definition calculate_rotation :: "Aircraft \<Rightarrow> Vector2 option \<Rightarrow> real \<Rightarrow> real" where
  "calculate_rotation a destination dt =
     (let normalized_velocity = Vector2 (cos (m_angle a)) (sin (m_angle a))
      in case destination \<bind> (\<lambda>d. angle_rad d normalized_velocity) of
           None \<Rightarrow> - aircraft_ANGULAR_SPEED * dt
         | Some target_angle \<Rightarrow>
             if target_angle > 0 then min (aircraft_ANGULAR_SPEED * dt) target_angle
             else max (- aircraft_ANGULAR_SPEED * dt) target_angle)"

text \<open>
  Over the reals the renormalised velocity has the length \<^verbatim>\<open>LINEAR_SPEED\<close> exactly. In
  binary32 the quotient and the product are rounded and the length of the result can
  exceed \<^verbatim>\<open>LINEAR_SPEED\<close> by a rounding error, so no bound on the length of a velocity is
  stated or used below.
\<close>

definition update_linear_velocity :: "real \<Rightarrow> Aircraft \<Rightarrow> Aircraft option" where
  "update_linear_velocity dt a =
     (let normalized_velocity = Vector2 (cos (m_angle a)) (sin (m_angle a));
          a = a\<lparr>m_linear_velocity :=
                  m_linear_velocity a
                  + smul (aircraft_LINEAR_ACCELERATION * dt) normalized_velocity\<rparr>
      in if get_length (m_linear_velocity a) > aircraft_LINEAR_SPEED then
           do {
             n \<leftarrow> get_normalized (m_linear_velocity a);
             Some (a\<lparr>m_linear_velocity := smul aircraft_LINEAR_SPEED n\<rparr>)
           }
         else Some a)"

text \<open>
  \<^verbatim>\<open>Aircraft::update\<close>: the returned flag, the aircraft after the call and the scene
  after the call. \<open>None\<close> would be an aircraft holding a NaN velocity; \<open>update_total\<close>
  below shows that there is none. The destination may be NaN, and
  \<^verbatim>\<open>calculate_rotation\<close> still returns a number.
\<close>

definition update ::
  "game \<Rightarrow> real \<Rightarrow> real \<Rightarrow> Vector2 \<Rightarrow> Aircraft \<Rightarrow> scene \<Rightarrow> (bool \<times> Aircraft \<times> scene) option" where
  "update g dt ship_delta_rotation ship_delta_velocity a sc =
     (if Aircraft.m_live_time a \<ge> aircraft_LIVE_TIME
         \<and> get_length (get_position (ship g) - m_position a) \<le> ship_SIZE
      then Some (False, a, sc)
      else
        let a =
          (if Aircraft.m_live_time a < aircraft_TAKEOFF_TIME then
             a\<lparr>m_linear_velocity := m_linear_velocity a + ship_delta_velocity,
               m_angle := get_angle (ship g),
               m_position :=
                 get_rotated (m_position a - get_position (ship g)) ship_delta_rotation
                 + get_position (ship g)\<rparr>
           else
             let destination = calculate_corrected_destination g a;
                 delta_rotation = calculate_rotation a destination dt
             in a\<lparr>m_angle := m_angle a + delta_rotation\<rparr>)
        in do {
             a \<leftarrow> update_linear_velocity dt a;
             let a = a\<lparr>m_position := m_position a + smul dt (m_linear_velocity a)\<rparr>;
             let sc = scene_call (placeMesh (m_mesh a) (vx (m_position a)) (vy (m_position a))
                                    (m_angle a)) sc;
             Some (True, a\<lparr>Aircraft.m_live_time := Aircraft.m_live_time a + dt\<rparr>, sc)
           })"

section \<open>Simple ship logic\<close>

text \<open>The state after the constructors of the globals and \<^verbatim>\<open>game::init\<close>.\<close>

definition init :: "scene \<Rightarrow> game \<times> scene" where
  "init sc =
     (let (m, sc') = scene_createShipMesh sc
      in (\<lparr>ship = \<lparr>mesh = m, position = Vector2 0 0, angle = 0, input = (\<lambda>key. False),
                    m_aircrafts = [], m_aircraft_refill_timers = [], Ship.m_live_time = 0\<rparr>,
           s_goal_position = 0\<rparr>, sc'))"

text \<open>The first loop of \<^verbatim>\<open>Ship::update\<close>, over the refill timers.\<close>

fun erase_refilled_timers :: "real \<Rightarrow> real list \<Rightarrow> real list" where
  "erase_refilled_timers now [] = []"
| "erase_refilled_timers now (t # ts) =
     (if now \<ge> t + ship_REFILL_TIME then erase_refilled_timers now ts
      else t # erase_refilled_timers now ts)"

text \<open>
  The second loop of \<^verbatim>\<open>Ship::update\<close>, over the aircraft, with the timers and the scene
  it changes. Erasing an aircraft destroys its mesh (the deleter of \<^verbatim>\<open>m_mesh\<close>).
\<close>

fun update_aircrafts ::
  "game \<Rightarrow> real \<Rightarrow> real \<Rightarrow> Vector2 \<Rightarrow> Aircraft list \<Rightarrow> real list \<Rightarrow> scene
   \<Rightarrow> (Aircraft list \<times> real list \<times> scene) option" where
  "update_aircrafts g dt ship_rotation ship_velocity [] timers sc = Some ([], timers, sc)"
| "update_aircrafts g dt ship_rotation ship_velocity (a # rest) timers sc =
     do {
       (alive, a', sc') \<leftarrow> update g dt ship_rotation ship_velocity a sc;
       if \<not> alive then
         update_aircrafts g dt ship_rotation ship_velocity rest
           (timers @ [Ship.m_live_time (ship g)]) (scene_call (destroyMesh (m_mesh a')) sc')
       else
         do {
           (rest', timers', sc'') \<leftarrow>
             update_aircrafts g dt ship_rotation ship_velocity rest timers sc';
           Some (a' # rest', timers', sc'')
         }
     }"

definition Ship_update :: "real \<Rightarrow> game \<Rightarrow> scene \<Rightarrow> (game \<times> scene) option" where
  "Ship_update dt g sc =
     (let s = ship g;
          linearSpeed =
            (if input s KEY_FORWARD then ship_LINEAR_SPEED
             else if input s KEY_BACKWARD then - ship_LINEAR_SPEED
             else 0);
          angularSpeed =
            (if input s KEY_LEFT \<and> linearSpeed \<noteq> 0 then ship_ANGULAR_SPEED
             else if input s KEY_RIGHT \<and> linearSpeed \<noteq> 0 then - ship_ANGULAR_SPEED
             else 0);
          ship_rotation = angularSpeed * dt;
          s = s\<lparr>angle := angle s + ship_rotation\<rparr>;
          ship_velocity = smul (linearSpeed * dt) (Vector2 (cos (angle s)) (sin (angle s)));
          s = s\<lparr>position := position s + ship_velocity\<rparr>;
          sc = scene_call (placeMesh (mesh s) (vx (position s)) (vy (position s)) (angle s)) sc;
          s = s\<lparr>m_aircraft_refill_timers :=
                  erase_refilled_timers (Ship.m_live_time s) (m_aircraft_refill_timers s)\<rparr>
      in do {
           (aircrafts, timers, sc) \<leftarrow>
             update_aircrafts (g\<lparr>ship := s\<rparr>) dt ship_rotation ship_velocity
               (m_aircrafts s) (m_aircraft_refill_timers s) sc;
           Some (g\<lparr>ship := s\<lparr>m_aircrafts := aircrafts,
                              m_aircraft_refill_timers := timers,
                              Ship.m_live_time := Ship.m_live_time s + dt\<rparr>\<rparr>, sc)
         })"

definition keyPressed :: "Key \<Rightarrow> game \<Rightarrow> game" where
  "keyPressed key g = g\<lparr>ship := (ship g)\<lparr>input := (input (ship g))(key := True)\<rparr>\<rparr>"

definition keyReleased :: "Key \<Rightarrow> game \<Rightarrow> game" where
  "keyReleased key g = g\<lparr>ship := (ship g)\<lparr>input := (input (ship g))(key := False)\<rparr>\<rparr>"

definition mouseClicked :: "Vector2 \<Rightarrow> bool \<Rightarrow> game \<Rightarrow> scene \<Rightarrow> game \<times> scene" where
  "mouseClicked worldPosition isLeftButton g sc =
     (if isLeftButton then
        (g\<lparr>s_goal_position := worldPosition\<rparr>,
         scene_call (placeGoalMarker (vx worldPosition) (vy worldPosition)) sc)
      else if length (m_aircrafts (ship g)) + length (m_aircraft_refill_timers (ship g)) < 5
      then
        let (a, sc') = Aircraft_new (position (ship g)) (angle (ship g)) sc
        in (g\<lparr>ship := (ship g)\<lparr>m_aircrafts := m_aircrafts (ship g) @ [a]\<rparr>\<rparr>, sc')
      else (g, sc))"

section \<open>The game's public interface\<close>

text \<open>
  What the framework calls between \<^verbatim>\<open>game::init\<close> and \<^verbatim>\<open>game::deinit\<close>. A click carries
  the world position that \<^verbatim>\<open>scene::screenToWorld\<close> gave.
\<close>

datatype event =
    Update real
  | KeyPressed Key
  | KeyReleased Key
  | MouseClicked Vector2 bool

fun step :: "event \<Rightarrow> game \<times> scene \<Rightarrow> (game \<times> scene) option" where
  "step (Update dt) (g, sc) = Ship_update dt g sc"
| "step (KeyPressed key) (g, sc) = Some (keyPressed key g, sc)"
| "step (KeyReleased key) (g, sc) = Some (keyReleased key g, sc)"
| "step (MouseClicked worldPosition isLeftButton) (g, sc) =
     Some (mouseClicked worldPosition isLeftButton g sc)"

fun run :: "event list \<Rightarrow> game \<times> scene \<Rightarrow> (game \<times> scene) option" where
  "run [] w = Some w"
| "run (e # es) w = step e w \<bind> run es"

section \<open>States for the examples\<close>

text \<open>
  A game whose ship is at \<open>S\<close> with angle \<open>t\<close>, no key down and no aircraft of its own,
  and whose goal is \<open>G\<close>; an aircraft at \<open>P\<close> with angle \<open>t\<close>, velocity \<open>v\<close> and age \<open>age\<close>; a
  game whose ship is at \<open>S\<close> with angle \<open>t\<close> and clock \<open>now\<close>, with the keys \<open>keys\<close> down and
  the aircraft \<open>as\<close>, no refill timer, and the goal at the origin.
\<close>

definition example_game :: "Vector2 \<Rightarrow> real \<Rightarrow> Vector2 \<Rightarrow> game" where
  "example_game S t G =
     \<lparr>ship = \<lparr>mesh = Mesh 0, position = S, angle = t, input = (\<lambda>key. False),
                m_aircrafts = [], m_aircraft_refill_timers = [], Ship.m_live_time = 0\<rparr>,
      s_goal_position = G\<rparr>"

definition example_aircraft :: "Vector2 \<Rightarrow> real \<Rightarrow> Vector2 \<Rightarrow> real \<Rightarrow> Aircraft" where
  "example_aircraft P t v age =
     \<lparr>m_mesh = Mesh 1, m_position = P, m_angle = t, m_linear_velocity = v,
      Aircraft.m_live_time = age\<rparr>"

definition example_fleet ::
  "Vector2 \<Rightarrow> real \<Rightarrow> Key list \<Rightarrow> Aircraft list \<Rightarrow> real \<Rightarrow> game" where
  "example_fleet S t keys as now =
     \<lparr>ship = \<lparr>mesh = Mesh 0, position = S, angle = t, input = (\<lambda>key. key \<in> set keys),
                m_aircrafts = as, m_aircraft_refill_timers = [], Ship.m_live_time = now\<rparr>,
      s_goal_position = 0\<rparr>"

definition empty_scene :: scene where
  "empty_scene = \<lparr>created = 0, calls = []\<rparr>"

section \<open>Vector algebra\<close>

lemma get_length_nonneg: "0 \<le> get_length v"
  by (simp add: get_length_def)

lemma vx_zero [simp]: "vx 0 = 0" and vy_zero [simp]: "vy 0 = 0"
  by (simp_all add: zero_Vector2_def)

lemma vx_plus [simp]: "vx (a + b) = vx a + vx b" and vy_plus [simp]: "vy (a + b) = vy a + vy b"
  by (simp_all add: plus_Vector2_def)

lemma vx_minus [simp]: "vx (a - b) = vx a - vx b" and vy_minus [simp]: "vy (a - b) = vy a - vy b"
  by (simp_all add: minus_Vector2_def)

lemma vx_uminus [simp]: "vx (- a) = - vx a" and vy_uminus [simp]: "vy (- a) = - vy a"
  by (simp_all add: uminus_Vector2_def)

lemma vx_smul [simp]: "vx (smul c a) = c * vx a" and vy_smul [simp]: "vy (smul c a) = c * vy a"
  by (simp_all add: smul_def)

lemma Vector2_eq_iff: "a = b \<longleftrightarrow> vx a = vx b \<and> vy a = vy b"
  by (cases a, cases b) simp

lemma Vector2_zero_iff: "v = 0 \<longleftrightarrow> vx v = 0 \<and> vy v = 0"
  by (simp add: Vector2_eq_iff)

lemma get_length_eq_0_iff: "get_length v = 0 \<longleftrightarrow> v = 0"
  by (simp add: get_length_def Vector2_zero_iff sum_squares_eq_zero_iff)

lemma get_length_uminus: "get_length (- v) = get_length v"
  by (simp add: get_length_def)

lemma get_length_smul: "get_length (smul c v) = \<bar>c\<bar> * get_length v"
proof -
  have "c * vx v * (c * vx v) + c * vy v * (c * vy v) = c\<^sup>2 * (vx v * vx v + vy v * vy v)"
    by (simp add: power2_eq_square algebra_simps)
  then show ?thesis
    by (simp add: get_length_def real_sqrt_mult)
qed

lemma get_normalized_Some:
  "v \<noteq> 0 \<Longrightarrow> get_normalized v = Some (smul (1 / get_length v) v)"
  by (simp add: get_normalized_def Let_def get_length_eq_0_iff smul_def)

lemma get_normalized_None: "get_normalized v = None \<longleftrightarrow> v = 0"
  by (simp add: get_normalized_def Let_def get_length_eq_0_iff)

lemma dot_Some:
  "v \<noteq> 0 \<Longrightarrow> d \<noteq> 0 \<Longrightarrow>
   dot v d = Some ((vx v * vx d + vy v * vy d) / (get_length v * get_length d))"
  by (simp add: dot_def get_normalized_Some add_divide_distrib)

lemma dot_None: "dot v d = None \<longleftrightarrow> v = 0 \<or> d = 0"
  by (auto simp: dot_def get_normalized_None bind_eq_None_conv get_normalized_Some)

section \<open>Steering law\<close>

lemma abs_get_length [simp]: "\<bar>get_length v\<bar> = get_length v"
  by (simp add: get_length_nonneg)

lemma get_length_swap: "get_length (a - b) = get_length (b - a)"
  using get_length_uminus [of "a - b"] by simp

lemma get_length_axis_x [simp]: "get_length (Vector2 c 0) = \<bar>c\<bar>"
  by (simp add: get_length_def)

lemma get_length_axis_y [simp]: "get_length (Vector2 0 c) = \<bar>c\<bar>"
  by (simp add: get_length_def)

lemma get_length_3_4 [simp]: "get_length (Vector2 2 (3 / 2)) = 5 / 2"
proof -
  have "get_length (Vector2 2 (3 / 2)) = sqrt ((5 / 2)\<^sup>2)"
    by (simp add: get_length_def power2_eq_square)
  then show ?thesis
    by (simp del: real_sqrt_abs add: real_sqrt_abs [of "5 / 2"])
qed

lemma Vector2_arith:
  "Vector2 a b + Vector2 c d = Vector2 (a + c) (b + d)"
  "Vector2 a b - Vector2 c d = Vector2 (a - c) (b - d)"
  "- Vector2 a b = Vector2 (- a) (- b)"
  "smul k (Vector2 a b) = Vector2 (k * a) (k * b)"
  "0 - Vector2 a b = Vector2 (- a) (- b)"
  "Vector2 a b - 0 = Vector2 a b"
  by (simp_all add: Vector2_eq_iff)

lemma example_game_simps [simp]:
  "position (ship (example_game S t G)) = S"
  "angle (ship (example_game S t G)) = t"
  "s_goal_position (example_game S t G) = G"
  "mesh (ship (example_game S t G)) = Mesh 0"
  "m_aircrafts (ship (example_game S t G)) = []"
  "m_aircraft_refill_timers (ship (example_game S t G)) = []"
  "Ship.m_live_time (ship (example_game S t G)) = 0"
  "input (ship (example_game S t G)) key = False"
  by (simp_all add: example_game_def)

lemma example_aircraft_simps [simp]:
  "m_position (example_aircraft P t v age) = P"
  "m_angle (example_aircraft P t v age) = t"
  "m_linear_velocity (example_aircraft P t v age) = v"
  "Aircraft.m_live_time (example_aircraft P t v age) = age"
  "m_mesh (example_aircraft P t v age) = Mesh 1"
  by (simp_all add: example_aircraft_def)

lemma LANDING_RADIUS_eq: "LANDING_RADIUS = pi + 125 / 108"
  by (simp add: LANDING_RADIUS_def calculate_landing_radius_def Let_def
      aircraft_ANGULAR_SPEED_def aircraft_LINEAR_SPEED_def aircraft_LANDING_SPEED_def
      aircraft_LINEAR_ACCELERATION_def)

lemma LANDING_RADIUS_bounds: "3 < LANDING_RADIUS" "LANDING_RADIUS < 6"
  using pi_ge_two pi_less_4 by (simp_all add: LANDING_RADIUS_eq)

lemma correct_closing_to_target_eq:
  "correct_closing_to_target a d =
     (if get_length d \<le> LANDING_RADIUS \<and> m_linear_velocity a \<noteq> 0 \<and> d \<noteq> 0
         \<and> get_length
              (smul ((vx (m_linear_velocity a) * vx d + vy (m_linear_velocity a) * vy d)
                     / (get_length (m_linear_velocity a) * get_length d))
                 (m_linear_velocity a)) > aircraft_LANDING_SPEED
      then - d else d)"
proof (cases "m_linear_velocity a = 0 \<or> d = 0")
  case True
  then have "dot (m_linear_velocity a) d = None"
    by (simp add: dot_None)
  with True show ?thesis
    by (auto simp: correct_closing_to_target_def)
next
  case False
  then show ?thesis
    by (simp add: correct_closing_to_target_def dot_Some Let_def)
qed

lemma correct_closing_to_target_cases:
  "correct_closing_to_target a d = d \<or> correct_closing_to_target a d = - d"
  by (simp add: correct_closing_to_target_def Let_def split: option.split)

lemma correct_closing_to_target_eq_0_iff:
  "correct_closing_to_target a d = 0 \<longleftrightarrow> d = 0"
  using correct_closing_to_target_cases [of a d] by auto

text \<open>
  Claim C2. For every destination \<open>d\<close> and every velocity, the overshoot guard returns
  \<open>- d\<close> exactly when the length of \<open>d\<close> is at most \<^verbatim>\<open>LANDING_RADIUS\<close> and the projection, the
  length of the velocity scaled by the cosine of the angle between the velocity and \<open>d\<close>,
  exceeds \<^verbatim>\<open>LANDING_SPEED\<close>; otherwise it returns \<open>d\<close>. The cosine is that of the
  normalised vectors, so the projection of a zero velocity or onto a zero destination is
  NaN and exceeds nothing.
\<close>

theorem overshoot_guard:
  "correct_closing_to_target a d =
     (if get_length d \<le> LANDING_RADIUS \<and> m_linear_velocity a \<noteq> 0 \<and> d \<noteq> 0
         \<and> get_length
              (smul ((vx (m_linear_velocity a) * vx d + vy (m_linear_velocity a) * vy d)
                     / (get_length (m_linear_velocity a) * get_length d))
                 (m_linear_velocity a)) > aircraft_LANDING_SPEED
      then - d else d)"
  by (rule correct_closing_to_target_eq)

theorem overshoot_guard_witness:
  "correct_closing_to_target (example_aircraft 0 0 (Vector2 2 (3 / 2)) 10) (Vector2 2 (3 / 2))
     = Vector2 (- 2) (- (3 / 2))
   \<and> correct_closing_to_target (example_aircraft 0 0 (Vector2 (3 / 2) (- 2)) 10)
       (Vector2 2 (3 / 2)) = Vector2 2 (3 / 2)
   \<and> correct_closing_to_target (example_aircraft 0 0 0 10) (Vector2 2 (3 / 2))
     = Vector2 2 (3 / 2)
   \<and> correct_closing_to_target (example_aircraft 0 0 (Vector2 0 (5 / 2)) 10) (Vector2 0 10)
     = Vector2 0 10"
  using LANDING_RADIUS_bounds
    overshoot_guard [of "example_aircraft 0 0 (Vector2 2 (3 / 2)) 10" "Vector2 2 (3 / 2)"]
    overshoot_guard [of "example_aircraft 0 0 (Vector2 (3 / 2) (- 2)) 10" "Vector2 2 (3 / 2)"]
    overshoot_guard [of "example_aircraft 0 0 0 10" "Vector2 2 (3 / 2)"]
    overshoot_guard [of "example_aircraft 0 0 (Vector2 0 (5 / 2)) 10" "Vector2 0 10"]
  by (simp add: Vector2_zero_iff Vector2_arith aircraft_LANDING_SPEED_def
      aircraft_LINEAR_SPEED_def get_length_smul)

lemma get_rotated_forward: "get_rotated (Vector2 1 0) t = Vector2 (cos t) (sin t)"
  by (simp add: get_rotated_def)

lemma get_rotated_quarter: "get_rotated v (pi / 2) = Vector2 (- vy v) (vx v)"
  by (simp add: get_rotated_def)

lemma get_length_quarter: "get_length (Vector2 (- vy v) (vx v)) = get_length v"
  by (simp add: get_length_def add.commute)

lemma calculate_target_destination_Some:
  assumes "m_position a \<noteq> s_goal_position g"
  shows "calculate_target_destination g a =
           Some (s_goal_position g
                 + smul aircraft_TARGET_RADIUS
                     (smul (1 / get_length (s_goal_position g - m_position a))
                        (Vector2 (- vy (s_goal_position g - m_position a))
                           (vx (s_goal_position g - m_position a))))
                 - m_position a)"
proof -
  let ?T = "s_goal_position g - m_position a"
  have T: "?T \<noteq> 0"
    using assms by simp
  then have "Vector2 (- vy ?T) (vx ?T) \<noteq> 0"
    by (auto simp: Vector2_zero_iff)
  then have "get_normalized (Vector2 (- vy ?T) (vx ?T)) =
      Some (smul (1 / get_length ?T) (Vector2 (- vy ?T) (vx ?T)))"
    using get_normalized_Some [of "Vector2 (- vy ?T) (vx ?T)"]
    by (simp add: get_length_quarter del: vx_minus vy_minus)
  then show ?thesis
    by (simp only: calculate_target_destination_def Let_def get_rotated_quarter bind.simps)
qed

text \<open>
  Claim C1. Whenever the raw destination \<open>d\<close> of the aircraft is a non-zero vector, the
  steering output of \<^verbatim>\<open>calculate_corrected_destination\<close> is \<^verbatim>\<open>LINEAR_SPEED\<close> times the
  normalised, overshoot-corrected destination minus the current linear velocity; the
  corrected destination is \<open>d\<close> or \<open>- d\<close>.
\<close>

theorem steering_law:
  assumes "calculate_destination g a = Some d" and "d \<noteq> 0"
  shows "calculate_corrected_destination g a =
           Some (smul aircraft_LINEAR_SPEED
                   (smul (1 / get_length (correct_closing_to_target a d))
                      (correct_closing_to_target a d))
                 - m_linear_velocity a)
         \<and> (correct_closing_to_target a d = d \<or> correct_closing_to_target a d = - d)"
proof -
  have "correct_closing_to_target a d \<noteq> 0"
    using assms(2) by (simp add: correct_closing_to_target_eq_0_iff)
  then have "get_normalized (correct_closing_to_target a d) =
      Some (smul (1 / get_length (correct_closing_to_target a d)) (correct_closing_to_target a d))"
    by (rule get_normalized_Some)
  then show ?thesis
    using assms(1) correct_closing_to_target_cases [of a d]
    by (simp add: calculate_corrected_destination_def)
qed

theorem steering_law_witness:
  "calculate_corrected_destination (example_game 0 0 (Vector2 2 0))
     (example_aircraft 0 0 (Vector2 2 (3 / 2)) 10) = Some (Vector2 (- 4) (- 3))"
proof -
  let ?g = "example_game 0 0 (Vector2 2 0)"
  let ?a = "example_aircraft 0 0 (Vector2 2 (3 / 2)) 10"
  have ne: "m_position ?a \<noteq> s_goal_position ?g"
    by (simp add: Vector2_zero_iff)
  have d: "calculate_destination ?g ?a = Some (Vector2 2 (3 / 2))"
    by (simp add: calculate_destination_def aircraft_LIVE_TIME_def
        calculate_target_destination_Some [OF ne] aircraft_TARGET_RADIUS_def Vector2_arith)
  have nz: "Vector2 2 (3 / 2) \<noteq> 0"
    by (simp add: Vector2_zero_iff)
  have neg: "correct_closing_to_target ?a (Vector2 2 (3 / 2)) = Vector2 (- 2) (- (3 / 2))"
    using LANDING_RADIUS_bounds
    by (simp add: correct_closing_to_target_eq Vector2_zero_iff Vector2_arith
        aircraft_LANDING_SPEED_def aircraft_LINEAR_SPEED_def get_length_smul)
  have len: "get_length (Vector2 (- 2) (- (3 / 2))) = 5 / 2"
    using get_length_uminus [of "Vector2 2 (3 / 2)"] by (simp add: Vector2_arith)
  from steering_law [OF d nz] show ?thesis
    by (simp add: neg len aircraft_LINEAR_SPEED_def Vector2_arith)
qed


section \<open>Target-orbit law\<close>

text \<open>
  Claim C4, as amended. For every goal \<open>G\<close> and every position \<open>P \<noteq> G\<close> of the aircraft, the
  offset of the orbit waypoint from the goal, which is the destination minus \<open>G - P\<close>, is
  perpendicular to \<open>G - P\<close> and has length \<^verbatim>\<open>TARGET_RADIUS\<close>; the destination itself has the
  inner product \<open>|G - P|\<^sup>2\<close> with \<open>G - P\<close>.
\<close>

theorem orbit_waypoint_perpendicular:
  assumes "m_position a \<noteq> s_goal_position g"
  shows "\<exists>D. calculate_target_destination g a = Some D
           \<and> vx (D - (s_goal_position g - m_position a)) * vx (s_goal_position g - m_position a)
             + vy (D - (s_goal_position g - m_position a)) * vy (s_goal_position g - m_position a)
             = 0
           \<and> get_length (D - (s_goal_position g - m_position a)) = aircraft_TARGET_RADIUS
           \<and> vx D * vx (s_goal_position g - m_position a)
             + vy D * vy (s_goal_position g - m_position a)
             = get_length (s_goal_position g - m_position a)
               * get_length (s_goal_position g - m_position a)"
proof -
  define T where "T = s_goal_position g - m_position a"
  define W where
    "W = smul aircraft_TARGET_RADIUS (smul (1 / get_length T) (Vector2 (- vy T) (vx T)))"
  define D where "D = s_goal_position g + W - m_position a"
  have T: "T \<noteq> 0"
    using assms by (simp add: T_def)
  have D: "calculate_target_destination g a = Some D"
    unfolding D_def T_def W_def by (rule calculate_target_destination_Some [OF assms])
  have DW: "D - T = W"
    by (simp add: D_def T_def)
  have perp: "vx W * vx T + vy W * vy T = 0"
    by (simp add: W_def)
  have len: "get_length W = aircraft_TARGET_RADIUS"
    using T
    by (simp add: W_def get_length_smul get_length_quarter get_length_eq_0_iff
        aircraft_TARGET_RADIUS_def)
  have sq: "vx T * vx T + vy T * vy T = get_length T * get_length T"
    by (simp add: get_length_def)
  have "D = T + W"
    using DW by (simp add: algebra_simps)
  then have "vx D * vx T + vy D * vy T = get_length T * get_length T"
    using perp sq by (simp add: algebra_simps)
  moreover have "vx (D - T) * vx T + vy (D - T) * vy T = 0"
    unfolding DW by (rule perp)
  moreover have "get_length (D - T) = aircraft_TARGET_RADIUS"
    unfolding DW by (rule len)
  ultimately show ?thesis
    unfolding T_def [symmetric] using D by blast
qed

theorem orbit_waypoint_perpendicular_witness:
  "calculate_target_destination (example_game 0 0 0) (example_aircraft (Vector2 (3 / 2) 0) 0 0 10)
     = Some (Vector2 (- (3 / 2)) (- (3 / 2)))
   \<and> vx (Vector2 (- (3 / 2)) (- (3 / 2)) - (0 - Vector2 (3 / 2) 0)) * vx (0 - Vector2 (3 / 2) 0)
     + vy (Vector2 (- (3 / 2)) (- (3 / 2)) - (0 - Vector2 (3 / 2) 0)) * vy (0 - Vector2 (3 / 2) 0)
     = 0"
proof -
  have ne: "m_position (example_aircraft (Vector2 (3 / 2) 0) 0 0 10)
      \<noteq> s_goal_position (example_game 0 0 0)"
    by (simp add: Vector2_zero_iff)
  have "calculate_target_destination (example_game 0 0 0)
      (example_aircraft (Vector2 (3 / 2) 0) 0 0 10) = Some (Vector2 (- (3 / 2)) (- (3 / 2)))"
    by (simp add: calculate_target_destination_Some [OF ne] aircraft_TARGET_RADIUS_def
        Vector2_arith)
  with orbit_waypoint_perpendicular [OF ne] show ?thesis
    by (simp add: Vector2_arith)
qed

text \<open>
  The destination itself is not tangential: with the goal at the origin and the aircraft
  at \<open>(1.5, 0)\<close>, on the circle of radius \<^verbatim>\<open>TARGET_RADIUS\<close>, the destination is
  \<open>(-1.5, -1.5)\<close>, whose inner product with \<open>G - P = (-1.5, 0)\<close> is \<open>2.25\<close>, not zero.
\<close>

theorem orbit_destination_not_tangential:
  "get_length (s_goal_position (example_game 0 0 0)
               - m_position (example_aircraft (Vector2 (3 / 2) 0) 0 0 10))
     = aircraft_TARGET_RADIUS
   \<and> calculate_target_destination (example_game 0 0 0)
       (example_aircraft (Vector2 (3 / 2) 0) 0 0 10)
     = Some (Vector2 (- (3 / 2)) (- (3 / 2)))
   \<and> vx (Vector2 (- (3 / 2)) (- (3 / 2))) * vx (0 - Vector2 (3 / 2) 0)
     + vy (Vector2 (- (3 / 2)) (- (3 / 2))) * vy (0 - Vector2 (3 / 2) 0) = 9 / 4"
proof -
  have ne: "m_position (example_aircraft (Vector2 (3 / 2) 0) 0 0 10)
      \<noteq> s_goal_position (example_game 0 0 0)"
    by (simp add: Vector2_zero_iff)
  have "calculate_target_destination (example_game 0 0 0)
      (example_aircraft (Vector2 (3 / 2) 0) 0 0 10) = Some (Vector2 (- (3 / 2)) (- (3 / 2)))"
    by (simp add: calculate_target_destination_Some [OF ne] aircraft_TARGET_RADIUS_def
        Vector2_arith)
  then show ?thesis
    by (simp add: aircraft_TARGET_RADIUS_def Vector2_arith)
qed


section \<open>Landing approach\<close>

lemma get_intersection_Some:
  assumes "vx v1 \<noteq> 0" and "vx v1 * vy v2 - vy v1 * vx v2 \<noteq> 0"
  shows "\<exists>n k. get_intersection p1 v1 p2 v2 = Some (p2 + smul k v2)
           \<and> p1 + smul n v1 = p2 + smul k v2"
proof -
  define den where "den = vy v1 * vx v2 / vx v1 - vy v2"
  define k where
    "k = (vy p2 - vy p1 - (vy v1 / vx v1) * (vx p2 - vx p1)) / den"
  define n where "n = (vx p2 + vx v2 * k - vx p1) / vx v1"
  have den: "den \<noteq> 0"
    using assms by (simp add: den_def field_simps)
  have "get_intersection p1 v1 p2 v2 =
      Some (Vector2 (vx p2 + vx v2 * k) (vy p2 + vy v2 * k))"
    using assms(1) den unfolding get_intersection_def k_def den_def by (simp add: Let_def)
  then have res: "get_intersection p1 v1 p2 v2 = Some (p2 + smul k v2)"
    by (simp add: Vector2_eq_iff)
  have kd: "k * den = vy p2 - vy p1 - (vy v1 / vx v1) * (vx p2 - vx p1)"
    using den by (simp add: k_def)
  have x: "vx p1 + n * vx v1 = vx p2 + k * vx v2"
    using assms(1) by (simp add: n_def mult.commute)
  have "n * vy v1 = (vy v1 / vx v1) * (vx p2 - vx p1) + k * (vy v1 * vx v2 / vx v1)"
    using assms(1) by (simp add: n_def field_simps)
  also have "\<dots> = vy p2 - vy p1 + k * vy v2"
    using kd by (simp add: den_def algebra_simps)
  finally have y: "vy p1 + n * vy v1 = vy p2 + k * vy v2"
    by simp
  from res x y show ?thesis
    by (auto simp: Vector2_eq_iff)
qed

lemma landing_intersection:
  assumes "cos t \<noteq> 0"
  shows "get_intersection S (Vector2 (cos t) (sin t)) P (Vector2 (- sin t) (cos t)) =
           Some (S + smul (vx (P - S) * cos t + vy (P - S) * sin t) (Vector2 (cos t) (sin t)))"
proof -
  define c where "c = cos t"
  define s where "s = sin t"
  have cs: "c * c + s * s = 1"
    by (simp add: c_def s_def flip: power2_eq_square)
  have c0: "c \<noteq> 0"
    using assms by (simp add: c_def)
  have den: "s * (- s) / c - c = - (1 / c)"
  proof -
    have "s * (- s) / c - c = - ((c * c + s * s) / c)"
      using c0 by (simp add: field_simps)
    then show ?thesis by (simp add: cs)
  qed
  have den0: "s * (- s) / c - c \<noteq> 0"
    unfolding den using c0 by simp
  define k where "k = (vy P - vy S - (s / c) * (vx P - vx S)) / (s * (- s) / c - c)"
  have k: "k = s * (vx P - vx S) - c * (vy P - vy S)"
    unfolding k_def den using c0 by (simp add: field_simps)
  have "vx P + (- s) * k - (vx S + (vx (P - S) * c + vy (P - S) * s) * c) =
      (1 - (c * c + s * s)) * (vx P - vx S)"
    unfolding k by (simp add: algebra_simps)
  then have x: "vx P + (- s) * k = vx S + (vx (P - S) * c + vy (P - S) * s) * c"
    by (simp add: cs)
  have "vy P + c * k - (vy S + (vx (P - S) * c + vy (P - S) * s) * s) =
      (1 - (c * c + s * s)) * (vy P - vy S)"
    unfolding k by (simp add: algebra_simps)
  then have y: "vy P + c * k = vy S + (vx (P - S) * c + vy (P - S) * s) * s"
    by (simp add: cs)
  note x y
  moreover have "get_intersection S (Vector2 c s) P (Vector2 (- s) c) =
      Some (Vector2 (vx P + (- s) * k) (vy P + c * k))"
    using c0 den0 unfolding get_intersection_def k_def by (simp add: Let_def)
  ultimately show ?thesis
    unfolding c_def [symmetric] s_def [symmetric]
    by (simp add: Vector2_eq_iff mult.commute)
qed

lemma calculate_landing_destination_nondegenerate:
  fixes g :: game and a :: Aircraft
  defines "fwd \<equiv> Vector2 (cos (angle (ship g))) (sin (angle (ship g)))"
  defines "I \<equiv> position (ship g)
                + smul (vx (m_position a - position (ship g)) * cos (angle (ship g))
                        + vy (m_position a - position (ship g)) * sin (angle (ship g))) fwd"
  assumes "cos (angle (ship g)) \<noteq> 0"
  shows "calculate_landing_destination g a =
      (if get_length (I - m_position a) > 0.01 then
         if get_length (I - m_position a) > LANDING_RADIUS then
           get_normalized (m_position a - I)
             \<bind> (\<lambda>n. Some (I + smul LANDING_RADIUS n - m_position a))
         else get_normalized (position (ship g) - I)
             \<bind> (\<lambda>n. Some (I + smul LANDING_RADIUS n - m_position a))
       else Some (position (ship g) - m_position a))"
proof -
  have "get_intersection (position (ship g)) fwd (m_position a)
          (Vector2 (- sin (angle (ship g))) (cos (angle (ship g)))) = Some I"
    unfolding I_def fwd_def using landing_intersection [OF assms(3)] by simp
  then show ?thesis
    unfolding calculate_landing_destination_def get_position_def get_angle_def
      get_rotated_forward get_rotated_quarter fwd_def
    by (simp add: Let_def)
qed

lemma landing_foot_on_normal:
  assumes "cos t \<noteq> 0"
  shows "\<exists>k. S + smul (vx (P - S) * cos t + vy (P - S) * sin t) (Vector2 (cos t) (sin t))
           = P + smul k (get_rotated (Vector2 (cos t) (sin t)) (pi / 2))"
proof -
  let ?fwd = "Vector2 (cos t) (sin t)" and ?nrm = "Vector2 (- sin t) (cos t)"
  have det: "vx ?fwd * vy ?nrm - vy ?fwd * vx ?nrm \<noteq> 0"
    by (simp flip: power2_eq_square)
  have "vx ?fwd \<noteq> 0"
    using assms by simp
  from get_intersection_Some [OF this det, of S P] landing_intersection [OF assms, of S P]
  show ?thesis
    by (auto simp: get_rotated_quarter)
qed

text \<open>
  Claim C3. For an aircraft of age at least \<^verbatim>\<open>LIVE_TIME\<close> and a ship whose forward vector
  has a non-zero x-component, let \<open>I\<close> be the foot of the aircraft's position \<open>P\<close> on the
  line through the ship's position \<open>S\<close> along the ship's forward vector; it lies on the
  line through \<open>P\<close> along the forward normal. With \<open>d\<close> the distance from \<open>I\<close> to \<open>P\<close>, the
  destination is \<open>I + LANDING_RADIUS * normalize (P - I) - P\<close> when \<open>d > 0.01\<close> and
  \<open>d > LANDING_RADIUS\<close>, it is \<open>I + LANDING_RADIUS * normalize (S - I) - P\<close> when
  \<open>0.01 < d \<le> LANDING_RADIUS\<close> (NaN when \<open>S = I\<close>, where the normalisation divides by
  zero), and it is \<open>S - P\<close> when \<open>d \<le> 0.01\<close>.
\<close>

theorem landing_phases:
  fixes g :: game and a :: Aircraft
  defines "S \<equiv> get_position (ship g)"
    and "P \<equiv> m_position a"
    and "fwd \<equiv> Vector2 (cos (get_angle (ship g))) (sin (get_angle (ship g)))"
  defines "I \<equiv> S + smul (vx (P - S) * vx fwd + vy (P - S) * vy fwd) fwd"
  assumes "Aircraft.m_live_time a \<ge> aircraft_LIVE_TIME"
    and "cos (get_angle (ship g)) \<noteq> 0"
  shows "(\<exists>k. I = P + smul k (get_rotated fwd (pi / 2)))
    \<and> (0.01 < get_length (I - P) \<and> LANDING_RADIUS < get_length (I - P) \<longrightarrow>
         calculate_destination g a =
           Some (I + smul LANDING_RADIUS (smul (1 / get_length (P - I)) (P - I)) - P))
    \<and> (0.01 < get_length (I - P) \<and> get_length (I - P) \<le> LANDING_RADIUS \<and> S \<noteq> I \<longrightarrow>
         calculate_destination g a =
           Some (I + smul LANDING_RADIUS (smul (1 / get_length (S - I)) (S - I)) - P))
    \<and> (0.01 < get_length (I - P) \<and> get_length (I - P) \<le> LANDING_RADIUS \<and> S = I \<longrightarrow>
         calculate_destination g a = None)
    \<and> (get_length (I - P) \<le> 0.01 \<longrightarrow> calculate_destination g a = Some (S - P))"
proof -
  have c: "cos (angle (ship g)) \<noteq> 0"
    using assms(6) by (simp add: get_angle_def)
  have I: "I = position (ship g)
                + smul (vx (m_position a - position (ship g)) * cos (angle (ship g))
                        + vy (m_position a - position (ship g)) * sin (angle (ship g)))
                    (Vector2 (cos (angle (ship g))) (sin (angle (ship g))))"
    by (simp add: I_def S_def P_def fwd_def get_position_def get_angle_def)
  have line: "\<exists>k. I = P + smul k (get_rotated fwd (pi / 2))"
    unfolding I using landing_foot_on_normal [OF c, of "position (ship g)" "m_position a"]
    by (simp add: P_def fwd_def get_angle_def)
  have dest: "calculate_destination g a =
      (if get_length (I - P) > 0.01 then
         if get_length (I - P) > LANDING_RADIUS then
           get_normalized (P - I) \<bind> (\<lambda>n. Some (I + smul LANDING_RADIUS n - P))
         else get_normalized (S - I) \<bind> (\<lambda>n. Some (I + smul LANDING_RADIUS n - P))
       else Some (S - P))"
    unfolding I P_def S_def get_position_def
    using assms(5) calculate_landing_destination_nondegenerate [OF c, of a]
    by (simp add: calculate_destination_def)
  have far: "P - I \<noteq> 0" if "0.01 < get_length (I - P)"
    using that get_length_eq_0_iff [of "P - I"] get_length_swap [of I P] by auto
  have p1: "0.01 < get_length (I - P) \<and> LANDING_RADIUS < get_length (I - P) \<longrightarrow>
         calculate_destination g a =
           Some (I + smul LANDING_RADIUS (smul (1 / get_length (P - I)) (P - I)) - P)"
    using far by (simp add: dest get_normalized_Some)
  have p2: "0.01 < get_length (I - P) \<and> get_length (I - P) \<le> LANDING_RADIUS \<and> S \<noteq> I \<longrightarrow>
         calculate_destination g a =
           Some (I + smul LANDING_RADIUS (smul (1 / get_length (S - I)) (S - I)) - P)"
    by (simp add: dest get_normalized_Some)
  have p2': "0.01 < get_length (I - P) \<and> get_length (I - P) \<le> LANDING_RADIUS \<and> S = I \<longrightarrow>
         calculate_destination g a = None"
    by (simp add: dest get_normalized_None [THEN iffD2])
  have p3: "get_length (I - P) \<le> 0.01 \<longrightarrow> calculate_destination g a = Some (S - P)"
    by (simp add: dest)
  from line p1 p2 p2' p3 show ?thesis
    by blast
qed

theorem landing_phases_witness:
  "calculate_destination (example_game 0 0 0) (example_aircraft (Vector2 3 10) 0 0 50)
     = Some (Vector2 0 (LANDING_RADIUS - 10))
   \<and> calculate_destination (example_game 0 0 0) (example_aircraft (Vector2 3 1) 0 0 50)
     = Some (Vector2 (- LANDING_RADIUS) (- 1))
   \<and> calculate_destination (example_game 0 0 0) (example_aircraft (Vector2 3 0) 0 0 50)
     = Some (Vector2 (- 3) 0)"
proof -
  let ?g = "example_game 0 0 0"
  have age: "Aircraft.m_live_time (example_aircraft P 0 0 50) \<ge> aircraft_LIVE_TIME" for P
    by (simp add: aircraft_LIVE_TIME_def)
  have c: "cos (get_angle (ship ?g)) \<noteq> 0"
    by (simp add: get_angle_def)
  have 1: "calculate_destination ?g (example_aircraft (Vector2 3 10) 0 0 50)
      = Some (Vector2 0 (LANDING_RADIUS - 10))"
    using landing_phases [OF age c, of "Vector2 3 10"] LANDING_RADIUS_bounds
    by (simp add: get_position_def get_angle_def Vector2_arith zero_Vector2_def)
  have 2: "calculate_destination ?g (example_aircraft (Vector2 3 1) 0 0 50)
      = Some (Vector2 (- LANDING_RADIUS) (- 1))"
    using landing_phases [OF age c, of "Vector2 3 1"] LANDING_RADIUS_bounds
    by (simp add: get_position_def get_angle_def Vector2_arith zero_Vector2_def)
  have 3: "calculate_destination ?g (example_aircraft (Vector2 3 0) 0 0 50)
      = Some (Vector2 (- 3) 0)"
    using landing_phases [OF age c, of "Vector2 3 0"]
    by (simp add: get_position_def get_angle_def Vector2_arith zero_Vector2_def)
  from 1 2 3 show ?thesis
    by simp
qed

section \<open>The tick of an aircraft\<close>

lemma update_linear_velocity_eq:
  "update_linear_velocity dt a =
     Some (a\<lparr>m_linear_velocity :=
              (let w = m_linear_velocity a
                       + smul (aircraft_LINEAR_ACCELERATION * dt)
                           (Vector2 (cos (m_angle a)) (sin (m_angle a)))
               in if get_length w > aircraft_LINEAR_SPEED
                  then smul aircraft_LINEAR_SPEED (smul (1 / get_length w) w) else w)\<rparr>)"
proof -
  define w where "w = m_linear_velocity a
      + smul (aircraft_LINEAR_ACCELERATION * dt) (Vector2 (cos (m_angle a)) (sin (m_angle a)))"
  have "w \<noteq> 0" if "get_length w > aircraft_LINEAR_SPEED"
    using that get_length_eq_0_iff [of w] by (auto simp: aircraft_LINEAR_SPEED_def)
  then show ?thesis
    unfolding update_linear_velocity_def Let_def w_def [symmetric]
    by (simp add: get_normalized_Some)
qed

lemma update_linear_velocity_Some:
  "\<exists>a'. update_linear_velocity dt a = Some a'
        \<and> m_mesh a' = m_mesh a \<and> m_position a' = m_position a \<and> m_angle a' = m_angle a
        \<and> Aircraft.m_live_time a' = Aircraft.m_live_time a"
  unfolding update_linear_velocity_eq Let_def by simp

lemma update_removed:
  assumes "Aircraft.m_live_time a \<ge> aircraft_LIVE_TIME"
    and "get_length (position (ship g) - m_position a) \<le> ship_SIZE"
  shows "update g dt r dv a sc = Some (False, a, sc)"
  using assms by (simp add: update_def get_position_def)

lemma update_alive:
  assumes "\<not> (Aircraft.m_live_time a \<ge> aircraft_LIVE_TIME
              \<and> get_length (position (ship g) - m_position a) \<le> ship_SIZE)"
  shows "\<exists>a'. update g dt r dv a sc =
           Some (True, a',
                 scene_call (placeMesh (m_mesh a) (vx (m_position a')) (vy (m_position a'))
                               (m_angle a')) sc)
        \<and> m_mesh a' = m_mesh a
        \<and> Aircraft.m_live_time a' = Aircraft.m_live_time a + dt"
proof -
  define a1 where "a1 =
    (if Aircraft.m_live_time a < aircraft_TAKEOFF_TIME then
       a\<lparr>m_linear_velocity := m_linear_velocity a + dv,
         m_angle := get_angle (ship g),
         m_position := get_rotated (m_position a - get_position (ship g)) r
                       + get_position (ship g)\<rparr>
     else
       a\<lparr>m_angle := m_angle a
            + calculate_rotation a (calculate_corrected_destination g a) dt\<rparr>)"
  have a1: "m_mesh a1 = m_mesh a" "Aircraft.m_live_time a1 = Aircraft.m_live_time a"
    by (simp_all add: a1_def)
  obtain a2 where a2: "update_linear_velocity dt a1 = Some a2"
    "m_mesh a2 = m_mesh a1" "m_position a2 = m_position a1" "m_angle a2 = m_angle a1"
    "Aircraft.m_live_time a2 = Aircraft.m_live_time a1"
    using update_linear_velocity_Some [of dt a1] by blast
  have "update g dt r dv a sc = (update_linear_velocity dt a1 \<bind> (\<lambda>a.
      Some (True,
        a\<lparr>m_position := m_position a + smul dt (m_linear_velocity a),
          Aircraft.m_live_time := Aircraft.m_live_time a + dt\<rparr>,
        scene_call (placeMesh (m_mesh a) (vx (m_position a + smul dt (m_linear_velocity a)))
                      (vy (m_position a + smul dt (m_linear_velocity a))) (m_angle a)) sc)))"
  proof -
    have "(Aircraft.m_live_time a \<ge> aircraft_LIVE_TIME
            \<and> get_length (get_position (ship g) - m_position a) \<le> ship_SIZE) = False"
      using assms by (simp add: get_position_def)
    then show ?thesis
      unfolding update_def a1_def Let_def by (simp only: if_False) simp
  qed
  then show ?thesis
    using a1 a2 by simp
qed

lemma update_takeoff:
  assumes "Aircraft.m_live_time a < aircraft_TAKEOFF_TIME"
  shows "update g dt r dv a sc =
    (let w = m_linear_velocity a + dv
             + smul (aircraft_LINEAR_ACCELERATION * dt)
                 (Vector2 (cos (get_angle (ship g))) (sin (get_angle (ship g))));
         v' = (if get_length w > aircraft_LINEAR_SPEED
               then smul aircraft_LINEAR_SPEED (smul (1 / get_length w) w) else w);
         p' = get_rotated (m_position a - get_position (ship g)) r + get_position (ship g)
              + smul dt v'
     in Some (True,
              a\<lparr>m_linear_velocity := v', m_angle := get_angle (ship g), m_position := p',
                Aircraft.m_live_time := Aircraft.m_live_time a + dt\<rparr>,
              scene_call (placeMesh (m_mesh a) (vx p') (vy p') (get_angle (ship g))) sc))"
proof -
  have "(Aircraft.m_live_time a \<ge> aircraft_LIVE_TIME
          \<and> get_length (get_position (ship g) - m_position a) \<le> ship_SIZE) = False"
    using assms by (simp add: aircraft_LIVE_TIME_def aircraft_TAKEOFF_TIME_def)
  then show ?thesis
    unfolding update_def using assms
    by (simp only: if_False if_True Let_def update_linear_velocity_eq) simp
qed

lemma update_flag:
  "\<exists>a' sc'. update g dt r dv a sc =
      Some (\<not> (Aircraft.m_live_time a \<ge> aircraft_LIVE_TIME
                \<and> get_length (position (ship g) - m_position a) \<le> ship_SIZE), a', sc')
      \<and> m_mesh a' = m_mesh a"
proof (cases "Aircraft.m_live_time a \<ge> aircraft_LIVE_TIME
                \<and> get_length (position (ship g) - m_position a) \<le> ship_SIZE")
  case True
  then show ?thesis
    using update_removed [of a g dt r dv sc] by simp
next
  case False
  from update_alive [OF this, of dt r dv sc] show ?thesis
    using False by auto
qed

lemma update_total: "\<exists>b a' sc'. update g dt r dv a sc = Some (b, a', sc')"
  using update_flag [of g dt r dv a sc] by blast

text \<open>
  The loop over the aircraft: one timer, the ship's clock, for every removed aircraft,
  and in the place of every other aircraft what its update made of it.
\<close>

lemma update_aircrafts_Some:
  "\<exists>as' sc'. update_aircrafts g dt r dv as timers sc =
      Some (as',
            timers @ replicate
              (length (filter (\<lambda>a. Aircraft.m_live_time a \<ge> aircraft_LIVE_TIME
                  \<and> get_length (position (ship g) - m_position a) \<le> ship_SIZE) as))
              (Ship.m_live_time (ship g)),
            sc')
      \<and> map m_mesh as' =
          map m_mesh (filter (\<lambda>a. \<not> (Aircraft.m_live_time a \<ge> aircraft_LIVE_TIME
                  \<and> get_length (position (ship g) - m_position a) \<le> ship_SIZE)) as)
      \<and> list_all2 (\<lambda>a a'. \<exists>sc0 sc1. update g dt r dv a sc0 = Some (True, a', sc1))
          (filter (\<lambda>a. \<not> (Aircraft.m_live_time a \<ge> aircraft_LIVE_TIME
                  \<and> get_length (position (ship g) - m_position a) \<le> ship_SIZE)) as) as'"
proof (induction as arbitrary: timers sc)
  case Nil
  show ?case by simp
next
  case (Cons a as)
  let ?rem = "\<lambda>a. Aircraft.m_live_time a \<ge> aircraft_LIVE_TIME
                  \<and> get_length (position (ship g) - m_position a) \<le> ship_SIZE"
  show ?case
  proof (cases "?rem a")
    case True
    then have u: "update g dt r dv a sc = Some (False, a, sc)"
      using update_removed [of a g dt r dv sc] by simp
    from Cons.IH [of "timers @ [Ship.m_live_time (ship g)]"
        "scene_call (destroyMesh (m_mesh a)) sc"]
    show ?thesis
      using True by (auto simp: u replicate_app_Cons_same)
  next
    case False
    from update_alive [OF this, of dt r dv sc]
    obtain a' sc' where u: "update g dt r dv a sc = Some (True, a', sc')"
      and a': "m_mesh a' = m_mesh a"
      by blast
    from Cons.IH [of timers sc'] obtain as' sc'' where
      l: "update_aircrafts g dt r dv as timers sc' =
        Some (as', timers @ replicate (length (filter ?rem as)) (Ship.m_live_time (ship g)),
              sc'')"
      and m: "map m_mesh as' = map m_mesh (filter (\<lambda>a. \<not> ?rem a) as)"
      and r: "list_all2 (\<lambda>a a'. \<exists>sc0 sc1. update g dt r dv a sc0 = Some (True, a', sc1))
          (filter (\<lambda>a. \<not> ?rem a) as) as'"
      by blast
    have "\<exists>sc0 sc1. update g dt r dv a sc0 = Some (True, a', sc1)"
      using u by blast
    with l m r a' False show ?thesis
      by (simp add: u)
  qed
qed

lemma length_erase_refilled_timers:
  "length (erase_refilled_timers now ts) \<le> length ts"
  by (induction ts) auto

section \<open>The tick of the ship\<close>

lemma update_reads:
  assumes "position (ship g1) = position (ship g2)"
    and "angle (ship g1) = angle (ship g2)"
    and "s_goal_position g1 = s_goal_position g2"
  shows "update g1 dt r dv a sc = update g2 dt r dv a sc"
proof -
  have t: "calculate_target_destination g1 a = calculate_target_destination g2 a"
    by (simp only: calculate_target_destination_def assms)
  have l: "calculate_landing_destination g1 a = calculate_landing_destination g2 a"
    by (simp only: calculate_landing_destination_def get_position_def get_angle_def assms)
  have d: "calculate_destination g1 a = calculate_destination g2 a"
    by (simp only: calculate_destination_def t l)
  have c: "calculate_corrected_destination g1 a = calculate_corrected_destination g2 a"
    by (simp only: calculate_corrected_destination_def d)
  show ?thesis
    by (simp only: update_def get_position_def get_angle_def assms c)
qed

lemma Ship_update_Some:
  fixes g :: game and dt :: real
  defines "linearSpeed \<equiv>
    (if input (ship g) KEY_FORWARD then ship_LINEAR_SPEED
     else if input (ship g) KEY_BACKWARD then - ship_LINEAR_SPEED else 0)"
  defines "ship_rotation \<equiv>
    (if input (ship g) KEY_LEFT \<and> linearSpeed \<noteq> 0 then ship_ANGULAR_SPEED
     else if input (ship g) KEY_RIGHT \<and> linearSpeed \<noteq> 0 then - ship_ANGULAR_SPEED else 0) * dt"
  defines "ship_velocity \<equiv>
    smul (linearSpeed * dt)
      (Vector2 (cos (angle (ship g) + ship_rotation)) (sin (angle (ship g) + ship_rotation)))"
  shows "\<exists>g' sc'. Ship_update dt g sc = Some (g', sc')
     \<and> angle (ship g') = angle (ship g) + ship_rotation
     \<and> position (ship g') = position (ship g) + ship_velocity
     \<and> m_aircraft_refill_timers (ship g') =
         erase_refilled_timers (Ship.m_live_time (ship g)) (m_aircraft_refill_timers (ship g))
         @ replicate
             (length (filter (\<lambda>a. Aircraft.m_live_time a \<ge> aircraft_LIVE_TIME
                 \<and> get_length (position (ship g') - m_position a) \<le> ship_SIZE)
                (m_aircrafts (ship g))))
             (Ship.m_live_time (ship g))
     \<and> map m_mesh (m_aircrafts (ship g')) =
         map m_mesh (filter (\<lambda>a. \<not> (Aircraft.m_live_time a \<ge> aircraft_LIVE_TIME
                 \<and> get_length (position (ship g') - m_position a) \<le> ship_SIZE))
                (m_aircrafts (ship g)))
     \<and> list_all2
         (\<lambda>a a'. \<exists>sc0 sc1. update g' dt ship_rotation ship_velocity a sc0 = Some (True, a', sc1))
         (filter (\<lambda>a. \<not> (Aircraft.m_live_time a \<ge> aircraft_LIVE_TIME
                 \<and> get_length (position (ship g') - m_position a) \<le> ship_SIZE))
            (m_aircrafts (ship g)))
         (m_aircrafts (ship g'))
     \<and> Ship.m_live_time (ship g') = Ship.m_live_time (ship g) + dt
     \<and> s_goal_position g' = s_goal_position g
     \<and> input (ship g') = input (ship g)"
proof -
  define s1 where "s1 = (ship g)\<lparr>angle := angle (ship g) + ship_rotation\<rparr>"
  define s2 where "s2 = s1\<lparr>position := position s1 + ship_velocity\<rparr>"
  define sc1 where
    "sc1 = scene_call (placeMesh (mesh s2) (vx (position s2)) (vy (position s2)) (angle s2)) sc"
  define s3 where "s3 = s2\<lparr>m_aircraft_refill_timers :=
      erase_refilled_timers (Ship.m_live_time s2) (m_aircraft_refill_timers s2)\<rparr>"
  have s1: "angle s1 = angle (ship g) + ship_rotation"
    by (simp add: s1_def)
  have eq: "Ship_update dt g sc =
      update_aircrafts (g\<lparr>ship := s3\<rparr>) dt ship_rotation ship_velocity
        (m_aircrafts s3) (m_aircraft_refill_timers s3) sc1
      \<bind> (\<lambda>(aircrafts, timers, sc).
            Some (g\<lparr>ship := s3\<lparr>m_aircrafts := aircrafts, m_aircraft_refill_timers := timers,
                                Ship.m_live_time := Ship.m_live_time s3 + dt\<rparr>\<rparr>, sc))"
    unfolding Ship_update_def Let_def linearSpeed_def ship_rotation_def ship_velocity_def
      s1_def s2_def sc1_def s3_def
    by simp
  have s3: "m_aircrafts s3 = m_aircrafts (ship g)"
    "Ship.m_live_time s3 = Ship.m_live_time (ship g)"
    "input s3 = input (ship g)"
    "angle s3 = angle (ship g) + ship_rotation"
    "position s3 = position (ship g) + ship_velocity"
    "m_aircraft_refill_timers s3 =
       erase_refilled_timers (Ship.m_live_time (ship g)) (m_aircraft_refill_timers (ship g))"
    by (simp_all add: s3_def s2_def s1_def)
  from update_aircrafts_Some [of "g\<lparr>ship := s3\<rparr>" dt ship_rotation ship_velocity
      "m_aircrafts s3" "m_aircraft_refill_timers s3" sc1]
  obtain as' sc' where
    loop: "update_aircrafts (g\<lparr>ship := s3\<rparr>) dt ship_rotation ship_velocity
        (m_aircrafts s3) (m_aircraft_refill_timers s3) sc1 =
      Some (as',
            m_aircraft_refill_timers s3 @ replicate
              (length (filter (\<lambda>a. Aircraft.m_live_time a \<ge> aircraft_LIVE_TIME
                  \<and> get_length (position s3 - m_position a) \<le> ship_SIZE) (m_aircrafts s3)))
              (Ship.m_live_time s3),
            sc')"
    and meshes: "map m_mesh as' =
          map m_mesh (filter (\<lambda>a. \<not> (Aircraft.m_live_time a \<ge> aircraft_LIVE_TIME
                  \<and> get_length (position s3 - m_position a) \<le> ship_SIZE)) (m_aircrafts s3))"
    and each: "list_all2
          (\<lambda>a a'. \<exists>sc0 sc1. update (g\<lparr>ship := s3\<rparr>) dt ship_rotation ship_velocity a sc0
                      = Some (True, a', sc1))
          (filter (\<lambda>a. \<not> (Aircraft.m_live_time a \<ge> aircraft_LIVE_TIME
                  \<and> get_length (position s3 - m_position a) \<le> ship_SIZE)) (m_aircrafts s3))
          as'"
    by auto
  define g' where "g' = g\<lparr>ship := s3\<lparr>m_aircrafts := as',
      m_aircraft_refill_timers := m_aircraft_refill_timers s3 @ replicate
              (length (filter (\<lambda>a. Aircraft.m_live_time a \<ge> aircraft_LIVE_TIME
                  \<and> get_length (position s3 - m_position a) \<le> ship_SIZE) (m_aircrafts s3)))
              (Ship.m_live_time s3),
      Ship.m_live_time := Ship.m_live_time s3 + dt\<rparr>\<rparr>"
  have upd: "update (g\<lparr>ship := s3\<rparr>) dt ship_rotation ship_velocity a sc0
      = update g' dt ship_rotation ship_velocity a sc0" for a sc0
    by (rule update_reads) (simp_all add: g'_def)
  have res: "Ship_update dt g sc = Some (g', sc')"
    unfolding eq loop g'_def by simp
  have g': "position (ship g') = position s3" "angle (ship g') = angle s3"
    "m_aircrafts (ship g') = as'" "Ship.m_live_time (ship g') = Ship.m_live_time s3 + dt"
    "s_goal_position g' = s_goal_position g" "input (ship g') = input s3"
    "m_aircraft_refill_timers (ship g') = m_aircraft_refill_timers s3 @ replicate
              (length (filter (\<lambda>a. Aircraft.m_live_time a \<ge> aircraft_LIVE_TIME
                  \<and> get_length (position s3 - m_position a) \<le> ship_SIZE) (m_aircrafts s3)))
              (Ship.m_live_time s3)"
    by (simp_all add: g'_def)
  have pos: "position (ship g') = position (ship g) + ship_velocity"
    by (simp add: g' s3)
  show ?thesis
  proof (intro exI conjI)
    show "Ship_update dt g sc = Some (g', sc')"
      by (rule res)
    show "angle (ship g') = angle (ship g) + ship_rotation"
      by (simp add: g' s3)
    show "position (ship g') = position (ship g) + ship_velocity"
      by (rule pos)
    show "m_aircraft_refill_timers (ship g') =
         erase_refilled_timers (Ship.m_live_time (ship g)) (m_aircraft_refill_timers (ship g))
         @ replicate
             (length (filter (\<lambda>a. Aircraft.m_live_time a \<ge> aircraft_LIVE_TIME
                 \<and> get_length (position (ship g') - m_position a) \<le> ship_SIZE)
                (m_aircrafts (ship g))))
             (Ship.m_live_time (ship g))"
      unfolding pos by (simp add: g' s3)
    show "map m_mesh (m_aircrafts (ship g')) =
         map m_mesh (filter (\<lambda>a. \<not> (Aircraft.m_live_time a \<ge> aircraft_LIVE_TIME
                 \<and> get_length (position (ship g') - m_position a) \<le> ship_SIZE))
                (m_aircrafts (ship g)))"
      unfolding pos using meshes by (simp add: g' s3)
    show "list_all2
         (\<lambda>a a'. \<exists>sc0 sc1. update g' dt ship_rotation ship_velocity a sc0 = Some (True, a', sc1))
         (filter (\<lambda>a. \<not> (Aircraft.m_live_time a \<ge> aircraft_LIVE_TIME
                 \<and> get_length (position (ship g') - m_position a) \<le> ship_SIZE))
            (m_aircrafts (ship g)))
         (m_aircrafts (ship g'))"
      unfolding pos using each unfolding upd by (simp add: g' s3)
    show "Ship.m_live_time (ship g') = Ship.m_live_time (ship g) + dt"
      by (simp add: g' s3)
    show "s_goal_position g' = s_goal_position g"
      by (simp add: g')
    show "input (ship g') = input (ship g)"
      by (simp add: g' s3)
  qed
qed

lemma Ship_update_capacity:
  assumes "Ship_update dt g sc = Some (g', sc')"
  shows "length (m_aircrafts (ship g')) + length (m_aircraft_refill_timers (ship g'))
         \<le> length (m_aircrafts (ship g)) + length (m_aircraft_refill_timers (ship g))"
proof -
  let ?rem = "\<lambda>a. Aircraft.m_live_time a \<ge> aircraft_LIVE_TIME
                 \<and> get_length (position (ship g') - m_position a) \<le> ship_SIZE"
  from Ship_update_Some [where g = g and dt = dt and sc = sc] assms
  have t: "m_aircraft_refill_timers (ship g') =
         erase_refilled_timers (Ship.m_live_time (ship g)) (m_aircraft_refill_timers (ship g))
         @ replicate (length (filter ?rem (m_aircrafts (ship g)))) (Ship.m_live_time (ship g))"
    and m: "map m_mesh (m_aircrafts (ship g')) =
         map m_mesh (filter (\<lambda>a. \<not> ?rem a) (m_aircrafts (ship g)))"
    by auto
  from m have "length (m_aircrafts (ship g')) =
      length (filter (\<lambda>a. \<not> ?rem a) (m_aircrafts (ship g)))"
    using map_eq_imp_length_eq by blast
  moreover have "length (filter ?rem (m_aircrafts (ship g)))
      + length (filter (\<lambda>a. \<not> ?rem a) (m_aircrafts (ship g))) = length (m_aircrafts (ship g))"
    by (rule sum_length_filter_compl)
  moreover have "length (m_aircraft_refill_timers (ship g')) \<le>
      length (m_aircraft_refill_timers (ship g)) + length (filter ?rem (m_aircrafts (ship g)))"
    using length_erase_refilled_timers [of "Ship.m_live_time (ship g)"
        "m_aircraft_refill_timers (ship g)"]
    by (simp add: t)
  ultimately show ?thesis
    by linarith
qed

lemma Ship_update_pose:
  assumes "Ship_update dt g sc = Some (g', sc')"
  shows "angle (ship g') = angle (ship g)
           + (if input (ship g) KEY_LEFT \<and> (input (ship g) KEY_FORWARD \<or> input (ship g) KEY_BACKWARD)
              then ship_ANGULAR_SPEED
              else if input (ship g) KEY_RIGHT
                      \<and> (input (ship g) KEY_FORWARD \<or> input (ship g) KEY_BACKWARD)
              then - ship_ANGULAR_SPEED else 0) * dt"
    and "position (ship g') = position (ship g)
           + smul ((if input (ship g) KEY_FORWARD then ship_LINEAR_SPEED
                    else if input (ship g) KEY_BACKWARD then - ship_LINEAR_SPEED else 0) * dt)
               (Vector2 (cos (angle (ship g'))) (sin (angle (ship g'))))"
  using assms unfolding Ship_update_def Let_def
  by (auto simp: ship_LINEAR_SPEED_def split: Option.bind_splits)

section \<open>Invariants of the game\<close>

lemma step_invariant:
  assumes "length (m_aircrafts (ship g)) + length (m_aircraft_refill_timers (ship g)) \<le> 5"
  shows "\<exists>g' sc'. step e (g, sc) = Some (g', sc')
     \<and> length (m_aircrafts (ship g')) + length (m_aircraft_refill_timers (ship g')) \<le> 5"
proof (cases e)
  case (Update dt)
  from Ship_update_Some [where g = g and dt = dt and sc = sc] obtain g' sc' where
    u: "Ship_update dt g sc = Some (g', sc')"
    by blast
  from Ship_update_capacity [OF u] assms u show ?thesis
    by (simp add: Update)
next
  case (KeyPressed key)
  with assms show ?thesis by (simp add: keyPressed_def)
next
  case (KeyReleased key)
  with assms show ?thesis by (simp add: keyReleased_def)
next
  case (MouseClicked worldPosition isLeftButton)
  with assms show ?thesis
    by (auto simp: mouseClicked_def Aircraft_new_def scene_createAircraftMesh_def)
qed

lemma run_invariant:
  assumes "length (m_aircrafts (ship g)) + length (m_aircraft_refill_timers (ship g)) \<le> 5"
  shows "\<exists>g' sc'. run evs (g, sc) = Some (g', sc')
     \<and> length (m_aircrafts (ship g')) + length (m_aircraft_refill_timers (ship g')) \<le> 5"
  using assms
proof (induction evs arbitrary: g sc)
  case Nil
  then show ?case by simp
next
  case (Cons e evs)
  from step_invariant [OF Cons.prems, of e sc] obtain g1 sc1 where
    s: "step e (g, sc) = Some (g1, sc1)"
    and i: "length (m_aircrafts (ship g1)) + length (m_aircraft_refill_timers (ship g1)) \<le> 5"
    by blast
  from Cons.IH [OF i, of sc1] show ?case
    by (simp add: s)
qed

lemma run_init_invariant:
  "\<exists>g sc. run evs (init sc0) = Some (g, sc)
     \<and> length (m_aircrafts (ship g)) + length (m_aircraft_refill_timers (ship g)) \<le> 5"
proof -
  obtain g0 sc1 where i: "init sc0 = (g0, sc1)"
    by (cases "init sc0")
  then have "m_aircrafts (ship g0) = []" "m_aircraft_refill_timers (ship g0) = []"
    by (auto simp: init_def scene_createShipMesh_def)
  then show ?thesis
    unfolding i using run_invariant [of g0 evs sc1] by simp
qed

lemma mouseClicked_rejected_iff:
  "mouseClicked p False g sc = (g, sc) \<longleftrightarrow>
     \<not> length (m_aircrafts (ship g)) + length (m_aircraft_refill_timers (ship g)) < 5"
proof -
  have "g\<lparr>ship := (ship g)\<lparr>m_aircrafts := m_aircrafts (ship g) @ [a]\<rparr>\<rparr> \<noteq> g" for a
  proof
    assume "g\<lparr>ship := (ship g)\<lparr>m_aircrafts := m_aircrafts (ship g) @ [a]\<rparr>\<rparr> = g"
    then have "m_aircrafts (ship (g\<lparr>ship := (ship g)\<lparr>m_aircrafts := m_aircrafts (ship g) @ [a]\<rparr>\<rparr>))
        = m_aircrafts (ship g)"
      by simp
    then show False by simp
  qed
  then show ?thesis
    by (auto simp: mouseClicked_def Aircraft_new_def scene_createAircraftMesh_def)
qed

text \<open>
  Claim C5. After every sequence of ticks, key events, goal commands and spawn commands,
  with the removals the ticks make, the game is in a state where the number of aircraft
  plus the number of refill timers is at most 5; and a spawn command in that state
  changes nothing, neither the game nor the scene, exactly when that sum is 5.
\<close>

theorem capacity_invariant:
  "\<exists>g sc. run evs (init sc0) = Some (g, sc)
     \<and> length (m_aircrafts (ship g)) + length (m_aircraft_refill_timers (ship g)) \<le> 5
     \<and> (mouseClicked p False g sc = (g, sc))
       = (length (m_aircrafts (ship g)) + length (m_aircraft_refill_timers (ship g)) = 5)"
proof -
  from run_init_invariant [of evs sc0] obtain g sc where
    r: "run evs (init sc0) = Some (g, sc)"
    and c: "length (m_aircrafts (ship g)) + length (m_aircraft_refill_timers (ship g)) \<le> 5"
    by blast
  have "(mouseClicked p False g sc = (g, sc))
       = (length (m_aircrafts (ship g)) + length (m_aircraft_refill_timers (ship g)) = 5)"
    using c by (auto simp: mouseClicked_rejected_iff)
  with r c show ?thesis
    by blast
qed

theorem capacity_invariant_witness:
  "\<exists>g sc. run [MouseClicked 0 False, MouseClicked 0 False, MouseClicked 0 False,
               MouseClicked 0 False, MouseClicked 0 False] (init empty_scene) = Some (g, sc)
     \<and> length (m_aircrafts (ship g)) = 5
     \<and> m_aircraft_refill_timers (ship g) = []
     \<and> mouseClicked 0 False g sc = (g, sc)"
proof -
  let ?evs = "[MouseClicked 0 False, MouseClicked 0 False, MouseClicked 0 False,
               MouseClicked 0 False, MouseClicked 0 False]"
  from capacity_invariant [of ?evs empty_scene 0] obtain g sc where
    r: "run ?evs (init empty_scene) = Some (g, sc)"
    and c: "(mouseClicked 0 False g sc = (g, sc))
       = (length (m_aircrafts (ship g)) + length (m_aircraft_refill_timers (ship g)) = 5)"
    by blast
  have "\<exists>g sc. run ?evs (init empty_scene) = Some (g, sc)
      \<and> length (m_aircrafts (ship g)) = 5 \<and> m_aircraft_refill_timers (ship g) = []"
    by (simp add: init_def scene_createShipMesh_def empty_scene_def mouseClicked_def
        Aircraft_new_def scene_createAircraftMesh_def)
  with r have "length (m_aircrafts (ship g)) = 5" "m_aircraft_refill_timers (ship g) = []"
    by auto
  with r c show ?thesis
    by simp
qed

text \<open>
  Claim C10. A call of \<^verbatim>\<open>Aircraft::update\<close> that returns false leaves the position, the
  angle, the linear velocity and the age of the aircraft as they were and makes no call
  to the scene: no mesh is placed.
\<close>

theorem removal_leaves_aircraft_unchanged:
  assumes "update g dt r dv a sc = Some (False, a', sc')"
  shows "a' = a \<and> sc' = sc"
proof (cases "Aircraft.m_live_time a \<ge> aircraft_LIVE_TIME
                \<and> get_length (position (ship g) - m_position a) \<le> ship_SIZE")
  case True
  then show ?thesis
    using update_removed [of a g dt r dv sc] assms by simp
next
  case False
  from update_alive [OF this, of dt r dv sc] assms show ?thesis
    by auto
qed

theorem removal_leaves_aircraft_unchanged_witness:
  "update (example_game 0 0 0) 1 0 0 (example_aircraft (Vector2 (1 / 10) 0) 0 (Vector2 1 0) 50)
     empty_scene =
   Some (False, example_aircraft (Vector2 (1 / 10) 0) 0 (Vector2 1 0) 50, empty_scene)"
proof -
  let ?a = "example_aircraft (Vector2 (1 / 10) 0) 0 (Vector2 1 0) 50"
  have "update (example_game 0 0 0) 1 0 0 ?a empty_scene = Some (False, ?a, empty_scene)"
    by (rule update_removed)
      (simp_all add: aircraft_LIVE_TIME_def ship_SIZE_def Vector2_arith zero_Vector2_def)
  from removal_leaves_aircraft_unchanged [OF this] this show ?thesis
    by simp
qed

text \<open>
  Claim C6. \<^verbatim>\<open>Aircraft::update\<close> returns false exactly when, at its start, the age of
  the aircraft is at least \<^verbatim>\<open>LIVE_TIME\<close> and its distance to the ship's position is at most
  \<^verbatim>\<open>SIZE\<close>. A tick of the ship keeps the aircraft for which this is false, with the ship's
  position of this tick, and appends to the refill timers that are not yet due one timer
  for every removed aircraft, each the ship's clock before the tick advances it.
\<close>

theorem removal_rule:
  "(\<exists>a' sc'. update g dt r dv a sc =
       Some (\<not> (Aircraft.m_live_time a \<ge> aircraft_LIVE_TIME
                 \<and> get_length (position (ship g) - m_position a) \<le> ship_SIZE), a', sc'))
   \<and> (\<exists>g' sc'. Ship_update dt g sc = Some (g', sc')
       \<and> map m_mesh (m_aircrafts (ship g')) =
           map m_mesh (filter (\<lambda>a. \<not> (Aircraft.m_live_time a \<ge> aircraft_LIVE_TIME
                   \<and> get_length (position (ship g') - m_position a) \<le> ship_SIZE))
                  (m_aircrafts (ship g)))
       \<and> m_aircraft_refill_timers (ship g') =
           erase_refilled_timers (Ship.m_live_time (ship g)) (m_aircraft_refill_timers (ship g))
           @ replicate
               (length (filter (\<lambda>a. Aircraft.m_live_time a \<ge> aircraft_LIVE_TIME
                   \<and> get_length (position (ship g') - m_position a) \<le> ship_SIZE)
                  (m_aircrafts (ship g))))
               (Ship.m_live_time (ship g)))"
proof -
  from update_flag [of g dt r dv a sc]
  have "\<exists>a' sc'. update g dt r dv a sc =
       Some (\<not> (Aircraft.m_live_time a \<ge> aircraft_LIVE_TIME
                 \<and> get_length (position (ship g) - m_position a) \<le> ship_SIZE), a', sc')"
    by blast
  moreover from Ship_update_Some [where g = g and dt = dt and sc = sc]
  have "\<exists>g' sc'. Ship_update dt g sc = Some (g', sc')
       \<and> map m_mesh (m_aircrafts (ship g')) =
           map m_mesh (filter (\<lambda>a. \<not> (Aircraft.m_live_time a \<ge> aircraft_LIVE_TIME
                   \<and> get_length (position (ship g') - m_position a) \<le> ship_SIZE))
                  (m_aircrafts (ship g)))
       \<and> m_aircraft_refill_timers (ship g') =
           erase_refilled_timers (Ship.m_live_time (ship g)) (m_aircraft_refill_timers (ship g))
           @ replicate
               (length (filter (\<lambda>a. Aircraft.m_live_time a \<ge> aircraft_LIVE_TIME
                   \<and> get_length (position (ship g') - m_position a) \<le> ship_SIZE)
                  (m_aircrafts (ship g))))
               (Ship.m_live_time (ship g))"
    by blast
  ultimately show ?thesis
    by blast
qed

theorem removal_rule_witness:
  "(\<exists>a' sc'. update (example_game 0 0 0) 1 0 0
        (example_aircraft (Vector2 (1 / 10) 0) 0 0 50) empty_scene = Some (False, a', sc'))
   \<and> (\<exists>a' sc'. update (example_game 0 0 0) 1 0 0
        (example_aircraft (Vector2 3 0) 0 0 50) empty_scene = Some (True, a', sc'))
   \<and> (\<exists>g' sc'. Ship_update 1
          ((example_game 0 0 0)
             \<lparr>ship := (ship (example_game 0 0 0))
                \<lparr>m_aircrafts := [example_aircraft (Vector2 (1 / 10) 0) 0 0 50,
                                 (example_aircraft (Vector2 3 0) 0 0 1)\<lparr>m_mesh := Mesh 2\<rparr>],
                 m_aircraft_refill_timers := [1, - 5],
                 Ship.m_live_time := 7\<rparr>\<rparr>) empty_scene = Some (g', sc')
      \<and> map m_mesh (m_aircrafts (ship g')) = [Mesh 2]
      \<and> m_aircraft_refill_timers (ship g') = [1, 7])"
proof -
  let ?a1 = "example_aircraft (Vector2 (1 / 10) 0) 0 0 50"
  let ?a2 = "(example_aircraft (Vector2 3 0) 0 0 1)\<lparr>m_mesh := Mesh 2\<rparr>"
  let ?g = "(example_game 0 0 0)
             \<lparr>ship := (ship (example_game 0 0 0))
                \<lparr>m_aircrafts := [?a1, ?a2], m_aircraft_refill_timers := [1, - 5],
                 Ship.m_live_time := 7\<rparr>\<rparr>"
  have 1: "\<exists>a' sc'. update (example_game 0 0 0) 1 0 0 ?a1 empty_scene = Some (False, a', sc')"
    using removal_rule [of "example_game 0 0 0" 1 0 0 ?a1 empty_scene]
    by (simp add: aircraft_LIVE_TIME_def ship_SIZE_def Vector2_arith zero_Vector2_def)
  have 2: "\<exists>a' sc'. update (example_game 0 0 0) 1 0 0
        (example_aircraft (Vector2 3 0) 0 0 50) empty_scene = Some (True, a', sc')"
    using removal_rule [of "example_game 0 0 0" 1 0 0 "example_aircraft (Vector2 3 0) 0 0 50"
        empty_scene]
    by (simp add: aircraft_LIVE_TIME_def ship_SIZE_def Vector2_arith zero_Vector2_def)
  from removal_rule [of ?g 1 0 0 ?a1 empty_scene]
  obtain g' sc' where
    u: "Ship_update 1 ?g empty_scene = Some (g', sc')"
    and m: "map m_mesh (m_aircrafts (ship g')) =
           map m_mesh (filter (\<lambda>a. \<not> (Aircraft.m_live_time a \<ge> aircraft_LIVE_TIME
                   \<and> get_length (position (ship g') - m_position a) \<le> ship_SIZE))
                  (m_aircrafts (ship ?g)))"
    and t: "m_aircraft_refill_timers (ship g') =
           erase_refilled_timers (Ship.m_live_time (ship ?g)) (m_aircraft_refill_timers (ship ?g))
           @ replicate
               (length (filter (\<lambda>a. Aircraft.m_live_time a \<ge> aircraft_LIVE_TIME
                   \<and> get_length (position (ship g') - m_position a) \<le> ship_SIZE)
                  (m_aircrafts (ship ?g))))
               (Ship.m_live_time (ship ?g))"
    by blast
  have p: "position (ship g') = Vector2 0 0"
    using Ship_update_pose(2) [OF u] by (simp add: Vector2_eq_iff)
  have m': "map m_mesh (m_aircrafts (ship g')) = [Mesh 2]"
    unfolding m p
    by (simp add: aircraft_LIVE_TIME_def ship_SIZE_def Vector2_arith)
  have t': "m_aircraft_refill_timers (ship g') = [1, 7]"
    unfolding t p
    by (simp add: aircraft_LIVE_TIME_def ship_SIZE_def ship_REFILL_TIME_def Vector2_arith)
  from u m' t' have 3: "\<exists>g' sc'. Ship_update 1 ?g empty_scene = Some (g', sc')
      \<and> map m_mesh (m_aircrafts (ship g')) = [Mesh 2]
      \<and> m_aircraft_refill_timers (ship g') = [1, 7]"
    by (intro exI conjI)
  from 1 2 3 show ?thesis
    by (intro conjI)
qed

section \<open>Takeoff\<close>

lemma example_fleet_simps [simp]:
  "position (ship (example_fleet S t keys as now)) = S"
  "angle (ship (example_fleet S t keys as now)) = t"
  "input (ship (example_fleet S t keys as now)) key = (key \<in> set keys)"
  "m_aircrafts (ship (example_fleet S t keys as now)) = as"
  "m_aircraft_refill_timers (ship (example_fleet S t keys as now)) = []"
  "Ship.m_live_time (ship (example_fleet S t keys as now)) = now"
  "mesh (ship (example_fleet S t keys as now)) = Mesh 0"
  "s_goal_position (example_fleet S t keys as now) = 0"
  by (simp_all add: example_fleet_def)

lemma get_length_unit: "get_length (Vector2 (cos t) (sin t)) = 1"
  by (simp add: get_length_def flip: power2_eq_square)

text \<open>
  Claim C7, as amended. A tick of the ship turns it by \<open>ship_rotation\<close>, its angular speed
  times \<open>dt\<close>, and then moves it by \<open>ship_velocity\<close>, its linear speed times \<open>dt\<close> along the
  new heading: the displacement of the ship in this tick, which \<^verbatim>\<open>Ship::update\<close> passes
  to every aircraft as \<^verbatim>\<open>ship_delta_velocity\<close>, with \<open>ship_rotation\<close> as
  \<^verbatim>\<open>ship_delta_rotation\<close>. An aircraft whose age at the start of the tick is below
  \<^verbatim>\<open>TAKEOFF_TIME\<close> is kept, and after the tick its angle is the ship's angle; its linear
  velocity is the velocity before plus \<open>ship_velocity\<close> plus \<^verbatim>\<open>LINEAR_ACCELERATION * dt\<close>
  along the ship's heading, and \<^verbatim>\<open>LINEAR_SPEED\<close> times the normalised sum where the sum is
  longer than \<^verbatim>\<open>LINEAR_SPEED\<close>; its position is the position before, rotated about the
  ship's position after the tick by \<open>ship_rotation\<close>, plus \<open>dt\<close> times the new velocity;
  and its age has grown by \<open>dt\<close>. The aircraft after the tick stand in the order of the
  aircraft before it that were not removed.
\<close>

theorem takeoff_tick:
  fixes g :: game and dt :: real
  defines "linearSpeed \<equiv>
    (if input (ship g) KEY_FORWARD then ship_LINEAR_SPEED
     else if input (ship g) KEY_BACKWARD then - ship_LINEAR_SPEED else 0)"
  defines "ship_rotation \<equiv>
    (if input (ship g) KEY_LEFT \<and> linearSpeed \<noteq> 0 then ship_ANGULAR_SPEED
     else if input (ship g) KEY_RIGHT \<and> linearSpeed \<noteq> 0 then - ship_ANGULAR_SPEED else 0) * dt"
  defines "ship_velocity \<equiv>
    smul (linearSpeed * dt)
      (Vector2 (cos (angle (ship g) + ship_rotation)) (sin (angle (ship g) + ship_rotation)))"
  shows "\<exists>g' sc'. Ship_update dt g sc = Some (g', sc')
     \<and> angle (ship g') = angle (ship g) + ship_rotation
     \<and> position (ship g') = position (ship g) + ship_velocity
     \<and> list_all2
         (\<lambda>a a'. Aircraft.m_live_time a < aircraft_TAKEOFF_TIME \<longrightarrow>
            m_mesh a' = m_mesh a
            \<and> m_angle a' = angle (ship g')
            \<and> m_linear_velocity a' =
                (let w = m_linear_velocity a + ship_velocity
                         + smul (aircraft_LINEAR_ACCELERATION * dt)
                             (Vector2 (cos (angle (ship g'))) (sin (angle (ship g'))))
                 in if get_length w > aircraft_LINEAR_SPEED
                    then smul aircraft_LINEAR_SPEED (smul (1 / get_length w) w) else w)
            \<and> m_position a' =
                get_rotated (m_position a - position (ship g')) ship_rotation
                + position (ship g') + smul dt (m_linear_velocity a')
            \<and> Aircraft.m_live_time a' = Aircraft.m_live_time a + dt)
         (filter (\<lambda>a. \<not> (Aircraft.m_live_time a \<ge> aircraft_LIVE_TIME
                 \<and> get_length (position (ship g') - m_position a) \<le> ship_SIZE))
            (m_aircrafts (ship g)))
         (m_aircrafts (ship g'))
     \<and> (\<forall>a \<in> set (m_aircrafts (ship g)).
           Aircraft.m_live_time a < aircraft_TAKEOFF_TIME \<longrightarrow>
           \<not> (Aircraft.m_live_time a \<ge> aircraft_LIVE_TIME
               \<and> get_length (position (ship g') - m_position a) \<le> ship_SIZE))"
proof -
  from Ship_update_Some [where g = g and dt = dt and sc = sc]
  obtain g' sc' where
    u: "Ship_update dt g sc = Some (g', sc')"
    and ang: "angle (ship g') = angle (ship g) + ship_rotation"
    and pos: "position (ship g') = position (ship g) + ship_velocity"
    and each: "list_all2
         (\<lambda>a a'. \<exists>sc0 sc1. update g' dt ship_rotation ship_velocity a sc0 = Some (True, a', sc1))
         (filter (\<lambda>a. \<not> (Aircraft.m_live_time a \<ge> aircraft_LIVE_TIME
                 \<and> get_length (position (ship g') - m_position a) \<le> ship_SIZE))
            (m_aircrafts (ship g)))
         (m_aircrafts (ship g'))"
    unfolding linearSpeed_def ship_rotation_def ship_velocity_def by blast
  have one: "m_mesh a' = m_mesh a
            \<and> m_angle a' = angle (ship g')
            \<and> m_linear_velocity a' =
                (let w = m_linear_velocity a + ship_velocity
                         + smul (aircraft_LINEAR_ACCELERATION * dt)
                             (Vector2 (cos (angle (ship g'))) (sin (angle (ship g'))))
                 in if get_length w > aircraft_LINEAR_SPEED
                    then smul aircraft_LINEAR_SPEED (smul (1 / get_length w) w) else w)
            \<and> m_position a' =
                get_rotated (m_position a - position (ship g')) ship_rotation
                + position (ship g') + smul dt (m_linear_velocity a')
            \<and> Aircraft.m_live_time a' = Aircraft.m_live_time a + dt"
    if "\<exists>sc0 sc1. update g' dt ship_rotation ship_velocity a sc0 = Some (True, a', sc1)"
      and "Aircraft.m_live_time a < aircraft_TAKEOFF_TIME" for a a'
    using that unfolding update_takeoff [OF that(2)] Let_def get_angle_def get_position_def
    by auto
  have all: "list_all2
         (\<lambda>a a'. Aircraft.m_live_time a < aircraft_TAKEOFF_TIME \<longrightarrow>
            m_mesh a' = m_mesh a
            \<and> m_angle a' = angle (ship g')
            \<and> m_linear_velocity a' =
                (let w = m_linear_velocity a + ship_velocity
                         + smul (aircraft_LINEAR_ACCELERATION * dt)
                             (Vector2 (cos (angle (ship g'))) (sin (angle (ship g'))))
                 in if get_length w > aircraft_LINEAR_SPEED
                    then smul aircraft_LINEAR_SPEED (smul (1 / get_length w) w) else w)
            \<and> m_position a' =
                get_rotated (m_position a - position (ship g')) ship_rotation
                + position (ship g') + smul dt (m_linear_velocity a')
            \<and> Aircraft.m_live_time a' = Aircraft.m_live_time a + dt)
         (filter (\<lambda>a. \<not> (Aircraft.m_live_time a \<ge> aircraft_LIVE_TIME
                 \<and> get_length (position (ship g') - m_position a) \<le> ship_SIZE))
            (m_aircrafts (ship g)))
         (m_aircrafts (ship g'))"
    by (rule list_all2_mono [OF each]) (use one in blast)
  have kept: "\<forall>a \<in> set (m_aircrafts (ship g)).
           Aircraft.m_live_time a < aircraft_TAKEOFF_TIME \<longrightarrow>
           \<not> (Aircraft.m_live_time a \<ge> aircraft_LIVE_TIME
               \<and> get_length (position (ship g') - m_position a) \<le> ship_SIZE)"
    by (simp add: aircraft_TAKEOFF_TIME_def aircraft_LIVE_TIME_def)
  show ?thesis
  proof (intro exI conjI)
    show "Ship_update dt g sc = Some (g', sc')" by (rule u)
  qed (rule ang pos all kept)+
qed

theorem takeoff_tick_witness:
  "\<exists>g' sc'. Ship_update 1
       (example_fleet 0 0 [KEY_FORWARD, KEY_LEFT] [example_aircraft (Vector2 1 0) 0 0 0] 0)
       empty_scene = Some (g', sc')
     \<and> angle (ship g') = 1 / 2
     \<and> position (ship g') = smul (1 / 2) (Vector2 (cos (1 / 2)) (sin (1 / 2)))
     \<and> map m_angle (m_aircrafts (ship g')) = [1 / 2]
     \<and> map m_linear_velocity (m_aircrafts (ship g'))
         = [smul (4 / 5) (Vector2 (cos (1 / 2)) (sin (1 / 2)))]
     \<and> map m_position (m_aircrafts (ship g'))
         = [get_rotated (Vector2 1 0 - smul (1 / 2) (Vector2 (cos (1 / 2)) (sin (1 / 2))))
              (1 / 2)
            + smul (1 / 2) (Vector2 (cos (1 / 2)) (sin (1 / 2)))
            + smul (4 / 5) (Vector2 (cos (1 / 2)) (sin (1 / 2)))]
     \<and> map Aircraft.m_live_time (m_aircrafts (ship g')) = [1]"
proof -
  let ?u = "Vector2 (cos (1 / 2)) (sin (1 / 2))"
  let ?a = "example_aircraft (Vector2 1 0) 0 0 0"
  let ?g = "example_fleet 0 0 [KEY_FORWARD, KEY_LEFT] [?a] 0"
  have "\<exists>g' sc'. Ship_update 1 ?g empty_scene = Some (g', sc')
     \<and> angle (ship g') = 1 / 2
     \<and> position (ship g') = smul (1 / 2) ?u
     \<and> list_all2
         (\<lambda>a a'. Aircraft.m_live_time a < aircraft_TAKEOFF_TIME \<longrightarrow>
            m_mesh a' = m_mesh a
            \<and> m_angle a' = angle (ship g')
            \<and> m_linear_velocity a' =
                (let w = m_linear_velocity a + smul (1 / 2) ?u
                         + smul (aircraft_LINEAR_ACCELERATION * 1)
                             (Vector2 (cos (angle (ship g'))) (sin (angle (ship g'))))
                 in if get_length w > aircraft_LINEAR_SPEED
                    then smul aircraft_LINEAR_SPEED (smul (1 / get_length w) w) else w)
            \<and> m_position a' =
                get_rotated (m_position a - position (ship g')) (1 / 2)
                + position (ship g') + smul 1 (m_linear_velocity a')
            \<and> Aircraft.m_live_time a' = Aircraft.m_live_time a + 1)
         [?a] (m_aircrafts (ship g'))"
    using takeoff_tick [where g = ?g and dt = 1 and sc = empty_scene]
    by (simp add: ship_LINEAR_SPEED_def ship_ANGULAR_SPEED_def aircraft_LIVE_TIME_def)
  then obtain g' sc' where
    u: "Ship_update 1 ?g empty_scene = Some (g', sc')"
    and ang: "angle (ship g') = 1 / 2"
    and pos: "position (ship g') = smul (1 / 2) ?u"
    and each: "list_all2
         (\<lambda>a a'. Aircraft.m_live_time a < aircraft_TAKEOFF_TIME \<longrightarrow>
            m_mesh a' = m_mesh a
            \<and> m_angle a' = angle (ship g')
            \<and> m_linear_velocity a' =
                (let w = m_linear_velocity a + smul (1 / 2) ?u
                         + smul (aircraft_LINEAR_ACCELERATION * 1)
                             (Vector2 (cos (angle (ship g'))) (sin (angle (ship g'))))
                 in if get_length w > aircraft_LINEAR_SPEED
                    then smul aircraft_LINEAR_SPEED (smul (1 / get_length w) w) else w)
            \<and> m_position a' =
                get_rotated (m_position a - position (ship g')) (1 / 2)
                + position (ship g') + smul 1 (m_linear_velocity a')
            \<and> Aircraft.m_live_time a' = Aircraft.m_live_time a + 1)
         [?a] (m_aircrafts (ship g'))"
    by blast
  have w: "smul (1 / 2) ?u + smul aircraft_LINEAR_ACCELERATION ?u = smul (4 / 5) ?u"
    by (simp add: Vector2_eq_iff aircraft_LINEAR_ACCELERATION_def)
  have lw: "get_length (smul (4 / 5) ?u) = 4 / 5"
    by (simp add: get_length_smul get_length_unit)
  from each obtain a' where
    as: "m_aircrafts (ship g') = [a']"
    and a': "m_angle a' = 1 / 2"
      "m_linear_velocity a' = smul (4 / 5) ?u"
      "m_position a' = get_rotated (Vector2 1 0 - smul (1 / 2) ?u) (1 / 2)
         + smul (1 / 2) ?u + smul 1 (m_linear_velocity a')"
      "Aircraft.m_live_time a' = 1"
    unfolding ang pos
    by (auto simp: aircraft_LIVE_TIME_def aircraft_TAKEOFF_TIME_def list_all2_Cons1 w lw
        aircraft_LINEAR_SPEED_def Let_def)
  have one: "smul 1 v = v" for v
    by (simp add: Vector2_eq_iff)
  show ?thesis
    using u ang pos as a' by (simp add: one)
qed

text \<open>
  The position is not offset by the ship's displacement. From the initial state, a spawn
  command and the forward key give a ship at the origin with one aircraft of age 0 at
  the origin. The tick with \<open>dt = 1\<close> moves the ship to \<open>(0.5, 0)\<close> without turning it. The
  position of the aircraft before the tick, rotated about the ship's position (before
  or after the tick) by the ship's rotation 0 and then offset by the ship's
  displacement \<open>(0.5, 0)\<close>, is \<open>(0.5, 0)\<close>; the tick leaves the aircraft at \<open>(0.8, 0)\<close>, with
  the velocity \<open>(0.8, 0)\<close>.
\<close>

lemma takeoff_example_spawn:
  "map_option fst (run [MouseClicked 0 False, KeyPressed KEY_FORWARD] (init empty_scene))
     = Some (example_fleet (Vector2 0 0) 0 [KEY_FORWARD]
               [example_aircraft (Vector2 0 0) 0 0 0] 0)"
  by (simp add: init_def scene_createShipMesh_def empty_scene_def mouseClicked_def
      Aircraft_new_def scene_createAircraftMesh_def keyPressed_def example_fleet_def
      example_aircraft_def fun_eq_iff)

lemma takeoff_example_tick:
  "map_option fst
     (run [MouseClicked 0 False, KeyPressed KEY_FORWARD, Update 1] (init empty_scene))
     = Some (example_fleet (Vector2 (1 / 2) 0) 0 [KEY_FORWARD]
               [example_aircraft (Vector2 (4 / 5) 0) 0 (Vector2 (4 / 5) 0) 1] 1)"
proof -
  have age: "Aircraft.m_live_time a < aircraft_TAKEOFF_TIME" if "Aircraft.m_live_time a = 0" for a
    using that by (simp add: aircraft_TAKEOFF_TIME_def)
  show ?thesis
    by (simp add: init_def scene_createShipMesh_def empty_scene_def mouseClicked_def
        Aircraft_new_def scene_createAircraftMesh_def keyPressed_def Ship_update_def Let_def
        update_takeoff [OF age] ship_LINEAR_SPEED_def get_angle_def get_position_def
        get_rotated_def aircraft_LINEAR_ACCELERATION_def aircraft_LINEAR_SPEED_def
        Vector2_arith zero_Vector2_def example_fleet_def example_aircraft_def fun_eq_iff)
qed

theorem takeoff_position_not_offset_by_ship_delta:
  "map_option fst (run [MouseClicked 0 False, KeyPressed KEY_FORWARD] (init empty_scene))
     = Some (example_fleet (Vector2 0 0) 0 [KEY_FORWARD]
               [example_aircraft (Vector2 0 0) 0 0 0] 0)
   \<and> map_option fst
       (run [MouseClicked 0 False, KeyPressed KEY_FORWARD, Update 1] (init empty_scene))
     = Some (example_fleet (Vector2 (1 / 2) 0) 0 [KEY_FORWARD]
               [example_aircraft (Vector2 (4 / 5) 0) 0 (Vector2 (4 / 5) 0) 1] 1)
   \<and> Aircraft.m_live_time (example_aircraft (Vector2 0 0) 0 0 0) < aircraft_TAKEOFF_TIME
   \<and> get_rotated (Vector2 0 0 - Vector2 0 0) (0 - 0) + Vector2 0 0
       + (Vector2 (1 / 2) 0 - Vector2 0 0) = Vector2 (1 / 2) 0
   \<and> get_rotated (Vector2 0 0 - Vector2 (1 / 2) 0) (0 - 0) + Vector2 (1 / 2) 0
       + (Vector2 (1 / 2) 0 - Vector2 0 0) = Vector2 (1 / 2) 0
   \<and> Vector2 (4 / 5) 0 \<noteq> Vector2 (1 / 2) 0"
proof -
  have "Aircraft.m_live_time (example_aircraft (Vector2 0 0) 0 0 0) < aircraft_TAKEOFF_TIME"
    by (simp add: aircraft_TAKEOFF_TIME_def)
  moreover have "get_rotated (Vector2 0 0 - Vector2 0 0) (0 - 0) + Vector2 0 0
       + (Vector2 (1 / 2) 0 - Vector2 0 0) = Vector2 (1 / 2) 0"
    by (simp add: get_rotated_def Vector2_arith)
  moreover have "get_rotated (Vector2 0 0 - Vector2 (1 / 2) 0) (0 - 0) + Vector2 (1 / 2) 0
       + (Vector2 (1 / 2) 0 - Vector2 0 0) = Vector2 (1 / 2) 0"
    by (simp add: get_rotated_def Vector2_arith)
  moreover have "Vector2 (4 / 5) 0 \<noteq> Vector2 (1 / 2) 0"
    by simp
  ultimately show ?thesis
    using takeoff_example_spawn takeoff_example_tick by (intro conjI)
qed

end
